theory Spec2Isabelle
  imports Main "HOL-Library.Word" "HOL-Library.AList" "HOL-Library.Sublist"
    "HOL-Library.Char_ord" "HOL-Library.List_Lexorder"
begin

unbundle bit_operations_syntax

section \<open>JavaScript values and library functions the program uses\<close>

text \<open>
  The repository holds two variants of one Express application: \<^verbatim>\<open>src/app.ts\<close> and
  \<^verbatim>\<open>src/unnamed/part_000\<close>. Their route handlers are textually identical; their
  \<^verbatim>\<open>bucketName\<close> and \<^verbatim>\<open>init\<close> differ. Definitions that belong to one variant
  carry the prefix \<open>app_\<close> or \<open>part000_\<close>.

  Strings and byte sequences are both \<open>string\<close> (a list of 8-bit characters); text outside
  ASCII is written as its UTF-8 bytes.
\<close>

type_synonym env = "string \<rightharpoonup> string"
  \<comment> \<open>\<^verbatim>\<open>process.env\<close> as it stands after \<^verbatim>\<open>dotenv.config()\<close>\<close>

definition truthy :: "string option \<Rightarrow> string option" where
  \<comment> \<open>the guard \<^verbatim>\<open>if (!v) ...\<close> on a value that is \<^verbatim>\<open>undefined\<close> or a string: \<open>None\<close> when the
      guard fires (\<^verbatim>\<open>undefined\<close> or the empty string), the string otherwise\<close>
  "truthy v = (case v of None \<Rightarrow> None | Some s \<Rightarrow> if s = [] then None else Some s)"

definition template :: "string option \<Rightarrow> string" where
  \<comment> \<open>\<^verbatim>\<open>`${v}`\<close>: \<^verbatim>\<open>undefined\<close> is rendered as the nine letters\<close>
  "template v = (case v of None \<Rightarrow> ''undefined'' | Some s \<Rightarrow> s)"

fun join :: "string \<Rightarrow> string list \<Rightarrow> string" where
  \<comment> \<open>\<^verbatim>\<open>Array.prototype.join\<close>\<close>
  "join sep [] = []"
| "join sep [x] = x"
| "join sep (x # y # ys) = x @ sep @ join sep (y # ys)"

definition digit_of :: "char \<Rightarrow> nat option" where
  "digit_of c = (let n = (of_char c :: nat) in if 48 \<le> n \<and> n \<le> 57 then Some (n - 48) else None)"

fun digits_prefix :: "nat option \<Rightarrow> string \<Rightarrow> nat option" where
  "digits_prefix acc [] = acc"
| "digits_prefix acc (c # cs) =
     (case digit_of c of
        None \<Rightarrow> acc
      | Some d \<Rightarrow> digits_prefix (Some ((case acc of None \<Rightarrow> 0 | Some a \<Rightarrow> a) * 10 + d)) cs)"

definition parseInt :: "string \<Rightarrow> nat option" where
  \<comment> \<open>\<^verbatim>\<open>parseInt\<close> on an unsigned decimal string, as the program calls it (on \<^verbatim>\<open>'9000'\<close>):
      the value of the leading decimal digits, \<open>None\<close> (NaN) when there is none.
      Leading white space, signs and the \<^verbatim>\<open>0x\<close> prefix are not modelled.\<close>
  "parseInt s = digits_prefix None s"

fun string_of_nat :: "nat \<Rightarrow> string" where
  "string_of_nat n =
     (if n < 10 then [char_of (48 + n)] else string_of_nat (n div 10) @ [char_of (48 + n mod 10)])"

declare string_of_nat.simps [simp del]

definition string_of_number :: "nat option \<Rightarrow> string" where
  \<comment> \<open>\<^verbatim>\<open>String(n)\<close> for a non-negative integer or NaN\<close>
  "string_of_number n = (case n of None \<Rightarrow> ''NaN'' | Some k \<Rightarrow> string_of_nat k)"

definition string_of_bool :: "bool \<Rightarrow> string" where
  "string_of_bool b = (if b then ''true'' else ''false'')"

subsection \<open>\<^verbatim>\<open>JSON.stringify\<close>\<close>

datatype json = JString string | JArray "json list" | JObject "(string \<times> json) list"

definition hex_digit :: "nat \<Rightarrow> char" where
  "hex_digit n = ''0123456789abcdef'' ! (n mod 16)"

definition escape_char :: "char \<Rightarrow> string" where
  "escape_char c =
     (let n = (of_char c :: nat) in
      if n = 0x22 then [CHR 0x5C, CHR 0x22]
      else if n = 0x5C then [CHR 0x5C, CHR 0x5C]
      else if n = 0x08 then [CHR 0x5C, CHR ''b'']
      else if n = 0x0C then [CHR 0x5C, CHR ''f'']
      else if n = 0x0A then [CHR 0x5C, CHR ''n'']
      else if n = 0x0D then [CHR 0x5C, CHR ''r'']
      else if n = 0x09 then [CHR 0x5C, CHR ''t'']
      else if n < 0x20 then [CHR 0x5C, CHR ''u'', CHR ''0'', CHR ''0'', hex_digit (n div 16), hex_digit n]
      else [c])"

definition quote :: "string \<Rightarrow> string" where
  "quote s = [CHR 0x22] @ concat (map escape_char s) @ [CHR 0x22]"

fun stringify :: "json \<Rightarrow> string" where
  "stringify (JString s) = quote s"
| "stringify (JArray xs) = ''['' @ join '','' (map stringify xs) @ '']''"
| "stringify (JObject kvs) =
     ''{'' @ join '','' (map (\<lambda>kv. quote (fst kv) @ '':'' @ stringify (snd kv)) kvs) @ ''}''"


subsection \<open>\<^verbatim>\<open>crypto.randomUUID\<close>\<close>

text \<open>
  Node's \<^verbatim>\<open>crypto.randomUUID()\<close> draws 16 bytes from the system's random source, overwrites
  the version and variant bits (RFC 4122, version 4) and prints the bytes in lower-case
  hexadecimal, grouped 8-4-4-4-12. The 16 drawn bytes are the argument of the model.
\<close>

definition hex_byte :: "8 word \<Rightarrow> string" where
  "hex_byte b = [hex_digit (unat (drop_bit 4 b)), hex_digit (unat (b AND 0x0f))]"

definition hex :: "8 word list \<Rightarrow> string" where
  "hex bs = concat (map hex_byte bs)"

definition uuid_v4_bits :: "8 word list \<Rightarrow> 8 word list" where
  "uuid_v4_bits rnd =
     (if length rnd = 16
      then rnd[6 := (rnd ! 6 AND 0x0f) OR 0x40, 8 := (rnd ! 8 AND 0x3f) OR 0x80]
      else rnd)"

definition randomUUID :: "8 word list \<Rightarrow> string" where
  "randomUUID rnd =
     (let b = uuid_v4_bits rnd in
      hex (take 4 b) @ ''-'' @ hex (take 2 (drop 4 b)) @ ''-'' @ hex (take 2 (drop 6 b)) @ ''-'' @
      hex (take 2 (drop 8 b)) @ ''-'' @ hex (drop 10 b))"

section \<open>The object store behind the MinIO client\<close>

text \<open>
  The store and the client library are outside the repository. The model is an in-memory
  store that keeps what it is given: a bucket holds a policy document and its objects (key
  and bytes); every request fails with \<open>ConnectionRefused\<close> while the store is not
  reachable. Every call of a method of the client is appended to \<open>calls\<close>, so that a
  theorem can count the calls a run makes.

  Before it sends anything, the client checks the bucket name it is given and throws
  \<^verbatim>\<open>InvalidBucketNameError\<close> for a name it refuses. The model has this check in the calls
  that start-up makes with the bucket name (\<^verbatim>\<open>bucketExists\<close>, \<^verbatim>\<open>makeBucket\<close>,
  \<^verbatim>\<open>setBucketPolicy\<close>) and in \<^verbatim>\<open>listObjects\<close>. The checks that \<^verbatim>\<open>putObject\<close> and
  \<^verbatim>\<open>getObject\<close> make of the bucket and object name, and the check of the host name in
  the constructor, are left out.
\<close>

subsection \<open>The client's check of a bucket name\<close>

text \<open>
  \<^verbatim>\<open>isValidBucketName\<close> of the client library: 3 to 63 characters, no two dots in a row,
  nothing that looks like an IP address (the unanchored pattern
  \<^verbatim>\<open>[0-9]+\.[0-9]+\.[0-9]+\.[0-9]+\<close>), and the shape \<^verbatim>\<open>^[a-z0-9][a-z0-9.-]+[a-z0-9]$\<close>.
\<close>

definition is_digit :: "char \<Rightarrow> bool" where
  "is_digit c = (let n = (of_char c :: nat) in 48 \<le> n \<and> n \<le> 57)"

definition is_lower :: "char \<Rightarrow> bool" where
  "is_lower c = (let n = (of_char c :: nat) in 97 \<le> n \<and> n \<le> 122)"

definition name_char :: "char \<Rightarrow> bool" where
  \<comment> \<open>the class \<^verbatim>\<open>[a-z0-9.-]\<close>\<close>
  "name_char c = (is_lower c \<or> is_digit c \<or> c = CHR ''.'' \<or> c = CHR ''-'')"

definition number_dot :: "string \<Rightarrow> string option" where
  \<comment> \<open>\<^verbatim>\<open>[0-9]+\.\<close> at the head of the string: what follows it\<close>
  "number_dot s =
     (case s of
        [] \<Rightarrow> None
      | c # _ \<Rightarrow>
          if is_digit c
          then (case dropWhile is_digit s of
                  [] \<Rightarrow> None
                | d # r \<Rightarrow> if d = CHR ''.'' then Some r else None)
          else None)"

definition dotted_quad_at :: "string \<Rightarrow> bool" where
  \<comment> \<open>\<^verbatim>\<open>[0-9]+\.[0-9]+\.[0-9]+\.[0-9]+\<close> at the head of the string\<close>
  "dotted_quad_at s =
     (case number_dot s of
        None \<Rightarrow> False
      | Some r1 \<Rightarrow>
          (case number_dot r1 of
             None \<Rightarrow> False
           | Some r2 \<Rightarrow>
               (case number_dot r2 of
                  None \<Rightarrow> False
                | Some r3 \<Rightarrow> (case r3 of [] \<Rightarrow> False | c # _ \<Rightarrow> is_digit c))))"

definition isValidBucketName :: "string \<Rightarrow> bool" where
  "isValidBucketName bucket =
     (3 \<le> length bucket \<and> length bucket \<le> 63 \<and>
      \<not> sublist ''..'' bucket \<and>
      \<not> list_ex dotted_quad_at (suffixes bucket) \<and>
      (case bucket of
         [] \<Rightarrow> False
       | c # cs \<Rightarrow>
           (is_lower c \<or> is_digit c) \<and>
           (case rev cs of
              [] \<Rightarrow> False
            | l # m \<Rightarrow> (is_lower l \<or> is_digit l) \<and> m \<noteq> [] \<and> list_all name_char m)))"

subsection \<open>The store and the calls\<close>

record bucket =
  policy :: "string option"
  contents :: "(string \<times> string) list"

datatype s3code = ConnectionRefused | NoSuchBucket | NoSuchKey | BucketAlreadyOwnedByYou

datatype js_error =
    Error string
  | S3Error s3code
  | TypeError string
  | InvalidBucketNameError string

record client_options =
  endPoint :: string
  accessKey :: string
  secretKey :: string
  port :: "nat option"
  useSSL :: bool

datatype call =
    NewClient client_options
  | ListBuckets
  | BucketExists string
  | MakeBucket string
  | SetBucketPolicy string string
  | PutObject string string string
  | GetObject string string
  | ListObjects string

datatype log = Info string | Log string | ErrorMsg string js_error | ErrorObj js_error

record world =
  store :: "string \<rightharpoonup> bucket"
  reachable :: bool
  calls :: "call list"
  console :: "log list"
  minioClient :: "client_options option"

type_synonym 'a promise = "world \<Rightarrow> (js_error + 'a) \<times> world"

definition await :: "'a promise \<Rightarrow> ('a \<Rightarrow> 'b promise) \<Rightarrow> 'b promise" where
  \<comment> \<open>\<^verbatim>\<open>const x = await m; k(x)\<close> inside an async function: a rejection of \<open>m\<close> is thrown\<close>
  "await m k w = (case m w of (Inl e, w') \<Rightarrow> (Inl e, w') | (Inr x, w') \<Rightarrow> k x w')"

definition info :: "string \<Rightarrow> world \<Rightarrow> world" where
  "info s w = w\<lparr>console := console w @ [Info s]\<rparr>"

definition new_Client :: "client_options \<Rightarrow> world \<Rightarrow> world" where
  \<comment> \<open>\<^verbatim>\<open>minioClient = new minio.Client(opts)\<close>\<close>
  "new_Client opts w = w\<lparr>minioClient := Some opts, calls := calls w @ [NewClient opts]\<rparr>"

definition undefined_client :: "string \<Rightarrow> js_error" where
  \<comment> \<open>what Node throws for \<^verbatim>\<open>minioClient.method(...)\<close> while the variable is still undefined\<close>
  "undefined_client method =
     TypeError (''Cannot read properties of undefined (reading '' @ [CHR 0x27] @ method @
                [CHR 0x27] @ '')'')"

definition request :: "string \<Rightarrow> call \<Rightarrow> 'a promise \<Rightarrow> 'a promise" where
  \<comment> \<open>a call of a method of \<^verbatim>\<open>minioClient\<close> that sends a request to the store\<close>
  "request method c serve w =
     (if minioClient w = None then (Inl (undefined_client method), w)
      else
        let w' = w\<lparr>calls := calls w @ [c]\<rparr> in
        if \<not> reachable w then (Inl (S3Error ConnectionRefused), w') else serve w')"

definition named_request :: "string \<Rightarrow> string \<Rightarrow> call \<Rightarrow> 'a promise \<Rightarrow> 'a promise" where
  \<comment> \<open>the same for a method that first checks the bucket name it is given\<close>
  "named_request method bucket c serve w =
     (if minioClient w = None then (Inl (undefined_client method), w)
      else
        let w' = w\<lparr>calls := calls w @ [c]\<rparr> in
        if \<not> isValidBucketName bucket
        then (Inl (InvalidBucketNameError (''Invalid bucket name: '' @ bucket)), w')
        else if \<not> reachable w then (Inl (S3Error ConnectionRefused), w')
        else serve w')"

definition listBuckets :: "unit promise" where
  \<comment> \<open>the program discards the list of buckets\<close>
  "listBuckets = request ''listBuckets'' ListBuckets (\<lambda>w. (Inr (), w))"

definition bucketExists :: "string \<Rightarrow> bool promise" where
  "bucketExists b =
     named_request ''bucketExists'' b (BucketExists b) (\<lambda>w. (Inr (store w b \<noteq> None), w))"

definition makeBucket :: "string \<Rightarrow> unit promise" where
  "makeBucket b = named_request ''makeBucket'' b (MakeBucket b) (\<lambda>w.
     case store w b of
       Some _ \<Rightarrow> (Inl (S3Error BucketAlreadyOwnedByYou), w)
     | None \<Rightarrow> (Inr (), w\<lparr>store := (store w)(b \<mapsto> \<lparr>policy = None, contents = []\<rparr>)\<rparr>))"

definition setBucketPolicy :: "string \<Rightarrow> string \<Rightarrow> unit promise" where
  "setBucketPolicy b p = named_request ''setBucketPolicy'' b (SetBucketPolicy b p) (\<lambda>w.
     case store w b of
       None \<Rightarrow> (Inl (S3Error NoSuchBucket), w)
     | Some bk \<Rightarrow> (Inr (), w\<lparr>store := (store w)(b \<mapsto> bk\<lparr>policy := Some p\<rparr>)\<rparr>))"

definition putObject :: "string \<Rightarrow> string \<Rightarrow> string \<Rightarrow> unit promise" where
  "putObject b k bytes = request ''putObject'' (PutObject b k bytes) (\<lambda>w.
     case store w b of
       None \<Rightarrow> (Inl (S3Error NoSuchBucket), w)
     | Some bk \<Rightarrow>
         (Inr (), w\<lparr>store := (store w)(b \<mapsto> bk\<lparr>contents := AList.update k bytes (contents bk)\<rparr>)\<rparr>))"

definition getObject :: "string \<Rightarrow> string \<Rightarrow> string promise" where
  "getObject b k = request ''getObject'' (GetObject b k) (\<lambda>w.
     case store w b of
       None \<Rightarrow> (Inl (S3Error NoSuchBucket), w)
     | Some bk \<Rightarrow>
         (case map_of (contents bk) k of
            None \<Rightarrow> (Inl (S3Error NoSuchKey), w)
          | Some bytes \<Rightarrow> (Inr bytes, w)))"

subsection \<open>Listing\<close>

text \<open>
  \<^verbatim>\<open>listObjects(bucketName)\<close> lists without recursion: the store answers in pages of at
  most 1000 entries, in the order of the keys, where all keys that share the text up to
  and including their first \<^verbatim>\<open>/\<close> make one entry, a prefix. The client passes on, page by
  page, first the objects of the page (each with its \<open>name\<close>) and then its prefixes (each
  with its \<open>prefix\<close> and no \<open>name\<close>).
\<close>

datatype BucketItem = ObjectItem string | PrefixItem string

definition name :: "BucketItem \<Rightarrow> string option" where
  \<comment> \<open>\<^verbatim>\<open>item.name\<close>, undefined for a prefix\<close>
  "name item = (case item of ObjectItem key \<Rightarrow> Some key | PrefixItem _ \<Rightarrow> None)"

definition item_of :: "string \<Rightarrow> BucketItem" where
  "item_of key =
     (if CHR ''/'' \<in> set key
      then PrefixItem (takeWhile (\<lambda>c. c \<noteq> CHR ''/'') key @ ''/'')
      else ObjectItem key)"

function pages :: "nat \<Rightarrow> 'a list \<Rightarrow> 'a list list" where
  "pages n xs =
     (if xs = [] then [] else if n = 0 then [xs] else take n xs # pages n (drop n xs))"
  by pat_completeness auto
termination
  by (relation "measure (\<lambda>(n, xs). length xs)") auto

declare pages.simps [simp del]

definition listing :: "string list \<Rightarrow> BucketItem list" where
  "listing keys =
     concat (map (\<lambda>page. filter (\<lambda>i. name i \<noteq> None) page @ filter (\<lambda>i. name i = None) page)
                 (pages 1000 (remdups_adj (map item_of (sort keys)))))"

datatype stream_event = Data BucketItem | End | StreamError js_error

definition listObjects :: "string \<Rightarrow> (stream_event list) promise" where
  \<comment> \<open>checks the bucket name and returns the stream at once; the stream carries the items,
      then \<open>End\<close>, or an error\<close>
  "listObjects b w =
     (if minioClient w = None then (Inl (undefined_client ''listObjects''), w)
      else
        let w' = w\<lparr>calls := calls w @ [ListObjects b]\<rparr> in
        if \<not> isValidBucketName b
        then (Inl (InvalidBucketNameError (''Invalid bucket name: '' @ b)), w')
        else
          (Inr (if \<not> reachable w then [StreamError (S3Error ConnectionRefused)]
                else case store w b of
                       None \<Rightarrow> [StreamError (S3Error NoSuchBucket)]
                     | Some bk \<Rightarrow> map Data (listing (map fst (contents bk))) @ [End]),
           w'))"

section \<open>Route handlers (the same text in both variants)\<close>

record response =
  status :: nat
  headers :: "(string \<times> string) list"
  body :: string

datatype outcome =
    Responded response
  | Rejected js_error  \<comment> \<open>the async handler threw: it wrote nothing to \<^verbatim>\<open>res\<close>\<close>
  | NoResponse         \<comment> \<open>the handler returned and no listener has answered yet\<close>

definition upload_handler :: "string \<Rightarrow> 8 word list \<Rightarrow> string \<Rightarrow> world \<Rightarrow> outcome \<times> world" where
  \<comment> \<open>\<^verbatim>\<open>app.post('/upload', ...)\<close>; \<open>rnd\<close> are the bytes \<^verbatim>\<open>randomUUID\<close> draws, \<open>req\<close> the request body\<close>
  "upload_handler bucketName rnd req w =
     (let randomFileName = randomUUID rnd in
      case putObject bucketName randomFileName req w of
        (Inl e, w') \<Rightarrow> (Rejected e, w')
      | (Inr _, w') \<Rightarrow>
          (Responded \<lparr>status = 200, headers = [],
             body = ''Your file is now available at https://minio-demo.zeabur.app/objects/'' @
                    randomFileName @ '' !''\<rparr>, w'))"

definition object_handler :: "string \<Rightarrow> string \<Rightarrow> world \<Rightarrow> outcome \<times> world" where
  \<comment> \<open>\<^verbatim>\<open>app.get('/objects/:objectName', ...)\<close>\<close>
  "object_handler bucketName objectName w =
     (case getObject bucketName objectName w of
        (Inl e, w') \<Rightarrow> (Rejected e, w')
      | (Inr stream, w') \<Rightarrow> (Responded \<lparr>status = 200, headers = [], body = stream\<rparr>, w'))"

definition list_item :: "BucketItem \<Rightarrow> string" where
  \<comment> \<open>\<^verbatim>\<open>`<li><a href="/objects/${object.name}">${object.name}</a></li>`\<close>\<close>
  "list_item object =
     ''<li><a href='' @ [CHR 0x22] @ ''/objects/'' @ template (name object) @ [CHR 0x22] @ ''>'' @
     template (name object) @ ''</a></li>''"

definition list_page_head :: string where
  "list_page_head =
     [CHR 0x0A] @ ''    <html lang='' @ [CHR 0x22] @ ''en-US'' @ [CHR 0x22] @ ''>'' @
     [CHR 0x0A] @ ''      <head>'' @ [CHR 0x0A] @
     ''        <title>Express MinIO example</title>'' @ [CHR 0x0A] @ ''      </head>'' @
     [CHR 0x0A] @ ''      <body>'' @ [CHR 0x0A] @
     ''        <h1>Express MinIO example</h1>'' @ [CHR 0x0A] @
     ''        <p>Here are the files you uploaded:</p>'' @ [CHR 0x0A] @ ''        <ul>'' @
     [CHR 0x0A] @ ''          ''"

definition list_page_tail :: string where
  "list_page_tail =
     [CHR 0x0A] @ ''        </ul>'' @ [CHR 0x0A] @ ''      </body>'' @ [CHR 0x0A] @
     ''    </html>'' @ [CHR 0x0A] @ ''    ''"

definition list_page :: "BucketItem list \<Rightarrow> string" where
  "list_page objects = list_page_head @ join [] (map list_item objects) @ list_page_tail"

fun listeners :: "BucketItem list \<Rightarrow> stream_event list \<Rightarrow> world \<Rightarrow> outcome \<times> world" where
  \<comment> \<open>the \<^verbatim>\<open>data\<close>, \<^verbatim>\<open>end\<close> and \<^verbatim>\<open>error\<close> listeners, run over the events of a one-shot stream
      up to its first \<^verbatim>\<open>end\<close> or \<^verbatim>\<open>error\<close>\<close>
  "listeners objects [] w = (NoResponse, w)"
| "listeners objects (Data obj # es) w = listeners (objects @ [obj]) es w"
| "listeners objects (End # es) w =
     (Responded \<lparr>status = 200, headers = [(''Content-Type'', ''text/html'')],
        body = list_page objects\<rparr>, w)"
| "listeners objects (StreamError err # es) w =
     (Responded \<lparr>status = 500, headers = [], body = ''Something went wrong!''\<rparr>,
      w\<lparr>console := console w @ [ErrorObj err]\<rparr>)"

definition objects_handler :: "string \<Rightarrow> world \<Rightarrow> outcome \<times> world" where
  \<comment> \<open>\<^verbatim>\<open>app.get('/objects', ...)\<close>\<close>
  "objects_handler bucketName w =
     (case listObjects bucketName w of
        (Inl e, w') \<Rightarrow> (Rejected e, w')
      | (Inr stream, w') \<Rightarrow> listeners [] stream w')"


section \<open>Start-up\<close>

text \<open>
  A local variable of \<^verbatim>\<open>init\<close> that has the name of a field of the client's options
  (\<open>endPoint\<close>, \<open>port\<close>, ...) is written with a prime.
\<close>

datatype init_result =
    Returned
  | Exited nat        \<comment> \<open>\<^verbatim>\<open>process.exit(n)\<close>\<close>
  | Threw js_error    \<comment> \<open>the promise of \<^verbatim>\<open>init\<close> rejected\<close>

datatype main_result =
    Listening string            \<comment> \<open>\<^verbatim>\<open>app.listen\<close> was called with this port\<close>
  | ProcessExit nat
  | UnhandledRejection js_error \<comment> \<open>the promise of \<^verbatim>\<open>main()\<close> rejected; nothing handles it\<close>

definition say :: "string \<Rightarrow> unit promise" where
  \<comment> \<open>\<^verbatim>\<open>console.info(s)\<close> as a step of an async function\<close>
  "say s w = (Inr (), info s w)"

definition throw :: "js_error \<Rightarrow> 'a promise" where
  "throw e w = (Inl e, w)"

definition construct :: "client_options \<Rightarrow> unit promise" where
  "construct opts w = (Inr (), new_Client opts w)"

definition listen :: "env \<Rightarrow> world \<Rightarrow> main_result \<times> world" where
  \<comment> \<open>\<^verbatim>\<open>app.listen(process.env.PORT || 3000, ...)\<close> and its callback\<close>
  "listen env w =
     (let p = (case truthy (env ''PORT'') of None \<Rightarrow> ''3000'' | Some s \<Rightarrow> s) in
      (Listening p, w\<lparr>console := console w @ [Log (''Server started on port '' @ p)]\<rparr>))"

definition exit_status :: "main_result \<Rightarrow> nat option" where
  \<comment> \<open>the status the process ends with, if it ends: an unhandled rejection ends a Node
      process (version 15 and later, default settings) with status 1\<close>
  "exit_status r =
     (case r of Listening _ \<Rightarrow> None | ProcessExit n \<Rightarrow> Some n | UnhandledRejection _ \<Rightarrow> Some 1)"

subsection \<open>Variant \<^verbatim>\<open>src/app.ts\<close>\<close>

definition app_bucketName :: string where
  "app_bucketName = ''example-bucket''"

definition app_not_set :: "string \<Rightarrow> string" where
  "app_not_set var = var @ '' is not set. Did you deploy a MinIO service?''"

definition app_hint :: "string \<Rightarrow> string \<Rightarrow> string" where
  "app_hint what tab =
     ''If you are running this app locally, you can get the '' @ what @ '' from the '' @
     [CHR 0x22] @ tab @ [CHR 0x22] @ '' tab of MinIO service in the Zeabur dashboard.''"

definition app_exit :: "string \<Rightarrow> string \<Rightarrow> world \<Rightarrow> init_result \<times> world" where
  \<comment> \<open>two \<^verbatim>\<open>console.info\<close> lines, then \<^verbatim>\<open>process.exit(1)\<close>\<close>
  "app_exit line1 line2 w = (Exited 1, info line2 (info line1 w))"

definition app_policyAllowAllRead :: "string \<Rightarrow> json" where
  "app_policyAllowAllRead bucketName =
     JObject
       [(''Version'', JString ''2012-10-17''),
        (''Id'', JString ''allow-all-read''),
        (''Statement'', JArray
           [JObject
              [(''Action'', JArray [JString ''s3:GetObject'']),
               (''Effect'', JString ''Allow''),
               (''Principal'', JObject [(''AWS'', JArray [JString ''*''])]),
               (''Resource'', JArray [JString (''arn:aws:s3:::'' @ bucketName @ ''/*'')])]])]"

definition app_ensure_bucket :: "unit promise" where
  \<comment> \<open>lines 62 to 88 of \<^verbatim>\<open>init\<close>\<close>
  "app_ensure_bucket =
     await (say ''Checking if bucket exists...'') (\<lambda>_.
     await (bucketExists app_bucketName) (\<lambda>exists.
     if \<not> exists then
       await (say ''Bucket does not exist, creating...'') (\<lambda>_.
       await (makeBucket app_bucketName) (\<lambda>_.
       await (say ''Bucket created!'') (\<lambda>_.
       await (say ''Setting bucket policy to allow all read...'') (\<lambda>_.
       await (setBucketPolicy app_bucketName
                (stringify (app_policyAllowAllRead app_bucketName))) (\<lambda>_.
       say ''Policy set!'')))))
     else say ''Bucket exists!''))"

definition app_init :: "env \<Rightarrow> world \<Rightarrow> init_result \<times> world" where
  "app_init env w =
     (case truthy (env ''MINIO_HOST'') of
        None \<Rightarrow> app_exit (app_not_set ''STORAGE_ENDPOINT'') (app_hint ''endpoint'' ''domain'') w
      | Some endPoint' \<Rightarrow>
     (case truthy (Some ''9000'') of
        None \<Rightarrow> app_exit (app_not_set ''STORAGE_PORT'') (app_hint ''port'' ''domain'') w
      | Some portStr \<Rightarrow>
     (let port' = parseInt portStr in
      case truthy (env ''MINIO_USERNAME'') of
        None \<Rightarrow> app_exit (app_not_set ''STORAGE_USER'') (app_hint ''access key'' ''connect'') w
      | Some accessKey' \<Rightarrow>
     (case truthy (env ''MINIO_PASSWORD'') of
        None \<Rightarrow>
          app_exit (app_not_set ''STORAGE_PASSWORD'') (app_hint ''secret key'' ''connect'') w
      | Some secretKey' \<Rightarrow>
     (let useSSLStr = (None :: string option) in
      if useSSLStr = None
      then app_exit (app_not_set ''STORAGE_USE_SSL'') (app_hint ''useSSL value'' ''connect'') w
      else
        let useSSL' = (useSSLStr = Some ''true'');
            w1 = info ''Connecting to MinIO storage...'' w;
            w2 = new_Client \<lparr>endPoint = endPoint', accessKey = accessKey',
                   secretKey = secretKey', port = port', useSSL = useSSL'\<rparr> w1;
            w3 = info ''Connected!'' w2
        in case app_ensure_bucket w3 of
             (Inl e, w') \<Rightarrow> (Threw e, w')
           | (Inr _, w') \<Rightarrow> (Returned, w'))))))"

definition app_main :: "env \<Rightarrow> world \<Rightarrow> main_result \<times> world" where
  "app_main env w =
     (case app_init env w of
        (Exited n, w') \<Rightarrow> (ProcessExit n, w')
      | (Threw e, w') \<Rightarrow> (UnhandledRejection e, w')
      | (Returned, w') \<Rightarrow> listen env w')"

subsection \<open>Variant \<^verbatim>\<open>src/unnamed/part_000\<close>\<close>

definition part000_bucketName :: "env \<Rightarrow> string" where
  \<comment> \<open>\<^verbatim>\<open>`${process.env.MINIO_DEFAULT_BUCKET}`\<close>\<close>
  "part000_bucketName env = template (env ''MINIO_DEFAULT_BUCKET'')"

text \<open>The messages of this variant are Chinese; these are their UTF-8 bytes.\<close>

definition zh_not_set :: string where
  "zh_not_set = '' '' @
     [CHR 0xE6, CHR 0x9C, CHR 0xAA, CHR 0xE8, CHR 0xA8, CHR 0xAD, CHR 0xE7, CHR 0xBD] @
     [CHR 0xAE, CHR 0xE3, CHR 0x80, CHR 0x82, CHR 0xE6, CHR 0x82, CHR 0xA8, CHR 0xE6] @
     [CHR 0x98, CHR 0xAF, CHR 0xE5, CHR 0x90, CHR 0xA6, CHR 0xE9, CHR 0x83, CHR 0xA8] @
     [CHR 0xE7, CHR 0xBD, CHR 0xB2, CHR 0xE4, CHR 0xBA, CHR 0x86] @ '' MinIO '' @
     [CHR 0xE6, CHR 0x9C, CHR 0x8D, CHR 0xE5, CHR 0x8B, CHR 0x99, CHR 0xEF, CHR 0xBC] @
     [CHR 0x9F]"

definition zh_connecting :: string where
  "zh_connecting =
     [CHR 0xE6, CHR 0xAD, CHR 0xA3, CHR 0xE5, CHR 0x9C, CHR 0xA8, CHR 0xE9, CHR 0x80] @
     [CHR 0xA3, CHR 0xE6, CHR 0x8E, CHR 0xA5, CHR 0xE5, CHR 0x88, CHR 0xB0] @ '' MinIO '' @
     [CHR 0xE5, CHR 0xAD, CHR 0x98, CHR 0xE5, CHR 0x84, CHR 0xB2] @ ''...''"

definition zh_details :: string where
  "zh_details =
     [CHR 0xE9, CHR 0x80, CHR 0xA3, CHR 0xE6, CHR 0x8E, CHR 0xA5, CHR 0xE8, CHR 0xA9] @
     [CHR 0xB3, CHR 0xE6, CHR 0x83, CHR 0x85, CHR 0xEF, CHR 0xBC, CHR 0x9A] @ ''endPoint=''"

definition zh_testing :: string where
  "zh_testing =
     [CHR 0xE6, CHR 0xAD, CHR 0xA3, CHR 0xE5, CHR 0x9C, CHR 0xA8, CHR 0xE6, CHR 0xB8] @
     [CHR 0xAC, CHR 0xE8, CHR 0xA9, CHR 0xA6] @ '' MinIO '' @
     [CHR 0xE9, CHR 0x80, CHR 0xA3, CHR 0xE6, CHR 0x8E, CHR 0xA5] @ ''...''"

definition zh_connected :: string where
  "zh_connected =
     [CHR 0xE6, CHR 0x88, CHR 0x90, CHR 0xE5, CHR 0x8A, CHR 0x9F, CHR 0xE9, CHR 0x80] @
     [CHR 0xA3, CHR 0xE6, CHR 0x8E, CHR 0xA5, CHR 0xE5, CHR 0x88, CHR 0xB0] @ '' MinIO'' @
     [CHR 0xEF, CHR 0xBC, CHR 0x81]"

definition zh_checking :: "string \<Rightarrow> string" where
  "zh_checking bucketName =
     [CHR 0xE6, CHR 0xAD, CHR 0xA3, CHR 0xE5, CHR 0x9C, CHR 0xA8, CHR 0xE6, CHR 0xAA] @
     [CHR 0xA2, CHR 0xE6, CHR 0x9F, CHR 0xA5] @ '' bucket '' @ [CHR 0x22] @ bucketName @
     [CHR 0x22] @ '' '' @
     [CHR 0xE6, CHR 0x98, CHR 0xAF, CHR 0xE5, CHR 0x90, CHR 0xA6, CHR 0xE5, CHR 0xAD] @
     [CHR 0x98, CHR 0xE5, CHR 0x9C, CHR 0xA8] @ ''...''"

definition zh_absent :: "string \<Rightarrow> string" where
  "zh_absent bucketName =
     ''Bucket '' @ [CHR 0x22] @ bucketName @ [CHR 0x22] @ '' '' @
     [CHR 0xE4, CHR 0xB8, CHR 0x8D, CHR 0xE5, CHR 0xAD, CHR 0x98, CHR 0xE5, CHR 0x9C] @
     [CHR 0xA8, CHR 0xEF, CHR 0xBC, CHR 0x8C, CHR 0xE6, CHR 0xAD, CHR 0xA3, CHR 0xE5] @
     [CHR 0x9C, CHR 0xA8, CHR 0xE5, CHR 0x89, CHR 0xB5, CHR 0xE5, CHR 0xBB, CHR 0xBA] @
     ''...''"

definition zh_created :: string where
  "zh_created = ''Bucket '' @
     [CHR 0xE5, CHR 0xB7, CHR 0xB2, CHR 0xE5, CHR 0x89, CHR 0xB5, CHR 0xE5, CHR 0xBB] @
     [CHR 0xBA, CHR 0xEF, CHR 0xBC, CHR 0x81]"

definition zh_setting :: string where
  "zh_setting =
     [CHR 0xE6, CHR 0xAD, CHR 0xA3, CHR 0xE5, CHR 0x9C, CHR 0xA8, CHR 0xE8, CHR 0xA8] @
     [CHR 0xAD, CHR 0xE7, CHR 0xBD, CHR 0xAE] @ '' bucket '' @
     [CHR 0xE7, CHR 0xAD, CHR 0x96, CHR 0xE7, CHR 0x95, CHR 0xA5, CHR 0xE4, CHR 0xBB] @
     [CHR 0xA5, CHR 0xE5, CHR 0x85, CHR 0x81, CHR 0xE8, CHR 0xA8, CHR 0xB1, CHR 0xE6] @
     [CHR 0x89, CHR 0x80, CHR 0xE6, CHR 0x9C, CHR 0x89, CHR 0xE8, CHR 0xAE, CHR 0x80] @
     [CHR 0xE5, CHR 0x8F, CHR 0x96] @ ''...''"

definition zh_policy_set :: string where
  "zh_policy_set =
     [CHR 0xE7, CHR 0xAD, CHR 0x96, CHR 0xE7, CHR 0x95, CHR 0xA5, CHR 0xE5, CHR 0xB7] @
     [CHR 0xB2, CHR 0xE8, CHR 0xA8, CHR 0xAD, CHR 0xE7, CHR 0xBD, CHR 0xAE, CHR 0xEF] @
     [CHR 0xBC, CHR 0x81]"

definition zh_exists :: "string \<Rightarrow> string" where
  "zh_exists bucketName =
     ''Bucket '' @ [CHR 0x22] @ bucketName @ [CHR 0x22] @ '' '' @
     [CHR 0xE5, CHR 0xB7, CHR 0xB2, CHR 0xE5, CHR 0xAD, CHR 0x98, CHR 0xE5, CHR 0x9C] @
     [CHR 0xA8, CHR 0xEF, CHR 0xBC, CHR 0x81]"

definition zh_init_error :: string where
  "zh_init_error =
     [CHR 0xE5, CHR 0x88, CHR 0x9D, CHR 0xE5, CHR 0xA7, CHR 0x8B, CHR 0xE5, CHR 0x8C] @
     [CHR 0x96, CHR 0xE9, CHR 0x81, CHR 0x8E, CHR 0xE7, CHR 0xA8, CHR 0x8B, CHR 0xE4] @
     [CHR 0xB8, CHR 0xAD, CHR 0xE7, CHR 0x99, CHR 0xBC, CHR 0xE7, CHR 0x94, CHR 0x9F] @
     [CHR 0xE9, CHR 0x8C, CHR 0xAF, CHR 0xE8, CHR 0xAA, CHR 0xA4, CHR 0xEF, CHR 0xBC] @
     [CHR 0x9A]"

definition part000_policyAllowAllRead :: "string \<Rightarrow> json" where
  "part000_policyAllowAllRead bucketName =
     JObject
       [(''Version'', JString ''2012-10-17''),
        (''Statement'', JArray
           [JObject
              [(''Action'', JArray [JString ''s3:GetObject'']),
               (''Effect'', JString ''Allow''),
               (''Principal'', JObject [(''AWS'', JArray [JString ''*''])]),
               (''Resource'', JArray [JString (''arn:aws:s3:::'' @ bucketName @ ''/*'')])]])]"

definition part000_try :: "env \<Rightarrow> unit promise" where
  \<comment> \<open>the \<^verbatim>\<open>try\<close> block of \<^verbatim>\<open>init\<close>\<close>
  "part000_try env =
     (let bucketName = part000_bucketName env in
      case truthy (env ''MINIO_HOST'') of
        None \<Rightarrow> throw (Error (''MINIO_HOST'' @ zh_not_set))
      | Some endPoint' \<Rightarrow>
     (let port' = Some 9000 in
      case truthy (env ''MINIO_USERNAME'') of
        None \<Rightarrow> throw (Error (''MINIO_USERNAME'' @ zh_not_set))
      | Some accessKey' \<Rightarrow>
     (case truthy (env ''MINIO_PASSWORD'') of
        None \<Rightarrow> throw (Error (''MINIO_PASSWORD'' @ zh_not_set))
      | Some secretKey' \<Rightarrow>
     (let useSSL' = False in
      await (say zh_connecting) (\<lambda>_.
      await (say (zh_details @ endPoint' @ '', port='' @ string_of_number port' @
                  '', useSSL='' @ string_of_bool useSSL')) (\<lambda>_.
      await (construct \<lparr>endPoint = endPoint', accessKey = accessKey', secretKey = secretKey',
                         port = port', useSSL = useSSL'\<rparr>) (\<lambda>_.
      await (say zh_testing) (\<lambda>_.
      await listBuckets (\<lambda>_.
      await (say zh_connected) (\<lambda>_.
      await (say (zh_checking bucketName)) (\<lambda>_.
      await (bucketExists bucketName) (\<lambda>exists.
      if \<not> exists then
        await (say (zh_absent bucketName)) (\<lambda>_.
        await (makeBucket bucketName) (\<lambda>_.
        await (say zh_created) (\<lambda>_.
        await (say zh_setting) (\<lambda>_.
        await (setBucketPolicy bucketName
                 (stringify (part000_policyAllowAllRead bucketName))) (\<lambda>_.
        say zh_policy_set)))))
      else say (zh_exists bucketName)))))))))))))"

definition part000_init :: "env \<Rightarrow> world \<Rightarrow> init_result \<times> world" where
  \<comment> \<open>\<^verbatim>\<open>catch (error) { console.error(..., error); throw error }\<close>\<close>
  "part000_init env w =
     (case part000_try env w of
        (Inl error, w') \<Rightarrow> (Threw error, w'\<lparr>console := console w' @ [ErrorMsg zh_init_error error]\<rparr>)
      | (Inr _, w') \<Rightarrow> (Returned, w'))"

definition part000_main :: "env \<Rightarrow> world \<Rightarrow> main_result \<times> world" where
  "part000_main env w =
     (case part000_init env w of
        (Exited n, w') \<Rightarrow> (ProcessExit n, w')
      | (Threw e, w') \<Rightarrow> (UnhandledRejection e, w')
      | (Returned, w') \<Rightarrow> listen env w')"


section \<open>Notions the properties are stated with\<close>

subsection \<open>Settings and calls\<close>

datatype setting = Host | AccessKey | SecretKey

definition missing :: "env \<Rightarrow> setting option" where
  \<comment> \<open>the first required setting, in the order \<^verbatim>\<open>init\<close> checks them, that is unset or empty\<close>
  "missing env =
     (if truthy (env ''MINIO_HOST'') = None then Some Host
      else if truthy (env ''MINIO_USERNAME'') = None then Some AccessKey
      else if truthy (env ''MINIO_PASSWORD'') = None then Some SecretKey
      else None)"

definition app_report :: "setting \<Rightarrow> string list" where
  \<comment> \<open>the two lines \<^verbatim>\<open>src/app.ts\<close> prints about a setting\<close>
  "app_report f =
     (case f of
        Host \<Rightarrow> [app_not_set ''STORAGE_ENDPOINT'', app_hint ''endpoint'' ''domain'']
      | AccessKey \<Rightarrow> [app_not_set ''STORAGE_USER'', app_hint ''access key'' ''connect'']
      | SecretKey \<Rightarrow> [app_not_set ''STORAGE_PASSWORD'', app_hint ''secret key'' ''connect''])"

definition part000_report :: "setting \<Rightarrow> js_error" where
  \<comment> \<open>the error \<^verbatim>\<open>part_000\<close> throws about a setting\<close>
  "part000_report f =
     (case f of
        Host \<Rightarrow> Error (''MINIO_HOST'' @ zh_not_set)
      | AccessKey \<Rightarrow> Error (''MINIO_USERNAME'' @ zh_not_set)
      | SecretKey \<Rightarrow> Error (''MINIO_PASSWORD'' @ zh_not_set))"

definition creates :: "call \<Rightarrow> bool" where
  \<comment> \<open>a call that creates a bucket or assigns a policy\<close>
  "creates c = (case c of MakeBucket _ \<Rightarrow> True | SetBucketPolicy _ _ \<Rightarrow> True | _ \<Rightarrow> False)"

subsection \<open>What a policy document grants\<close>

text \<open>
  What a policy document grants to anonymous callers, read the way the store reads it, in
  the part the program uses: a statement applies when its effect is \<open>Allow\<close>, its principal
  lists \<open>*\<close>, and one of its actions and one of its resources match, where \<open>*\<close> in a
  pattern stands for any run of characters.
\<close>

fun glob :: "string \<Rightarrow> string \<Rightarrow> bool" where
  "glob [] s = (s = [])"
| "glob (p # ps) [] = (p = CHR ''*'' \<and> glob ps [])"
| "glob (p # ps) (c # t) =
     (if p = CHR ''*'' then glob ps (c # t) \<or> glob (p # ps) t else c = p \<and> glob ps t)"

fun json_get :: "string \<Rightarrow> json \<Rightarrow> json option" where
  "json_get k (JObject kvs) = map_of kvs k"
| "json_get k _ = None"

fun texts :: "json option \<Rightarrow> string list" where
  "texts (Some (JArray xs)) = concat (map (\<lambda>x. case x of JString s \<Rightarrow> [s] | _ \<Rightarrow> []) xs)"
| "texts (Some (JString s)) = [s]"
| "texts _ = []"

definition statements :: "json \<Rightarrow> json list" where
  "statements doc = (case json_get ''Statement'' doc of Some (JArray ss) \<Rightarrow> ss | _ \<Rightarrow> [])"

definition statement_allows :: "json \<Rightarrow> string \<Rightarrow> string \<Rightarrow> bool" where
  "statement_allows st action resource =
     (json_get ''Effect'' st = Some (JString ''Allow'') \<and>
      ''*'' \<in> set (texts (case json_get ''Principal'' st of
                              Some p \<Rightarrow> json_get ''AWS'' p
                            | None \<Rightarrow> None)) \<and>
      (\<exists>a \<in> set (texts (json_get ''Action'' st)). glob a action) \<and>
      (\<exists>r \<in> set (texts (json_get ''Resource'' st)). glob r resource))"

definition anonymous_may :: "json \<Rightarrow> string \<Rightarrow> string \<Rightarrow> bool" where
  "anonymous_may doc action resource =
     (\<exists>st \<in> set (statements doc). statement_allows st action resource)"

text \<open>The text of the two policy documents, as \<^verbatim>\<open>JSON.stringify\<close> writes them, for a
  bucket name that needs no escaping.\<close>

definition part000_policy_text :: "string \<Rightarrow> string" where
  "part000_policy_text bucketName =
     ''{'' @ [CHR 0x22] @ ''Version'' @ [CHR 0x22] @ '':'' @ [CHR 0x22] @
     ''2012-10-17'' @ [CHR 0x22] @ '','' @ [CHR 0x22] @ ''Statement'' @ [CHR 0x22] @
     '':[{'' @ [CHR 0x22] @ ''Action'' @ [CHR 0x22] @ '':['' @ [CHR 0x22] @
     ''s3:GetObject'' @ [CHR 0x22] @ ''],'' @ [CHR 0x22] @ ''Effect'' @ [CHR 0x22] @
     '':'' @ [CHR 0x22] @ ''Allow'' @ [CHR 0x22] @ '','' @ [CHR 0x22] @ ''Principal'' @
     [CHR 0x22] @ '':{'' @ [CHR 0x22] @ ''AWS'' @ [CHR 0x22] @ '':['' @ [CHR 0x22] @
     ''*'' @ [CHR 0x22] @ '']},'' @ [CHR 0x22] @ ''Resource'' @ [CHR 0x22] @ '':['' @
     [CHR 0x22] @ ''arn:aws:s3:::'' @ bucketName @ ''/*'' @ [CHR 0x22] @ '']}]}''"

definition app_policy_text :: "string \<Rightarrow> string" where
  "app_policy_text bucketName =
     ''{'' @ [CHR 0x22] @ ''Version'' @ [CHR 0x22] @ '':'' @ [CHR 0x22] @
     ''2012-10-17'' @ [CHR 0x22] @ '','' @ [CHR 0x22] @ ''Id'' @ [CHR 0x22] @ '':'' @
     [CHR 0x22] @ ''allow-all-read'' @ [CHR 0x22] @ '','' @ [CHR 0x22] @ ''Statement'' @
     [CHR 0x22] @ '':[{'' @ [CHR 0x22] @ ''Action'' @ [CHR 0x22] @ '':['' @ [CHR 0x22] @
     ''s3:GetObject'' @ [CHR 0x22] @ ''],'' @ [CHR 0x22] @ ''Effect'' @ [CHR 0x22] @
     '':'' @ [CHR 0x22] @ ''Allow'' @ [CHR 0x22] @ '','' @ [CHR 0x22] @ ''Principal'' @
     [CHR 0x22] @ '':{'' @ [CHR 0x22] @ ''AWS'' @ [CHR 0x22] @ '':['' @ [CHR 0x22] @
     ''*'' @ [CHR 0x22] @ '']},'' @ [CHR 0x22] @ ''Resource'' @ [CHR 0x22] @ '':['' @
     [CHR 0x22] @ ''arn:aws:s3:::'' @ bucketName @ ''/*'' @ [CHR 0x22] @ '']}]}''"

definition link_entry :: "string \<Rightarrow> string" where
  \<comment> \<open>the list entry of a key: its name, linked to the fetch endpoint\<close>
  "link_entry key =
     ''<li><a href='' @ [CHR 0x22] @ ''/objects/'' @ key @ [CHR 0x22] @ ''>'' @ key @
     ''</a></li>''"

subsection \<open>Concrete states and draws, for the instances below\<close>

definition fresh_world :: world where
  \<comment> \<open>a process that has just started, in front of an empty reachable store\<close>
  "fresh_world =
     \<lparr>store = Map.empty, reachable = True, calls = [], console = [], minioClient = None\<rparr>"

definition stocked_world :: world where
  \<comment> \<open>a process that has just started, in front of a store that already holds the bucket,
      with a policy of its own and one object\<close>
  "stocked_world =
     \<lparr>store = [''example-bucket'' \<mapsto> \<lparr>policy = Some ''{}'', contents = [(''a.txt'', ''hello'')]\<rparr>],
      reachable = True, calls = [], console = [], minioClient = None\<rparr>"

definition serving_world :: world where
  \<comment> \<open>the same store behind a process whose \<^verbatim>\<open>init\<close> has built the client\<close>
  "serving_world =
     stocked_world\<lparr>minioClient := Some \<lparr>endPoint = ''minio.local'', accessKey = ''admin'',
       secretKey = ''secret'', port = Some 9000, useSSL = False\<rparr>\<rparr>"

text \<open>Three draws of 16 random bytes; the second differs from the first in the six bits
  that \<^verbatim>\<open>randomUUID\<close> overwrites, the third in its first byte.\<close>

definition rnd_a :: "8 word list" where
  "rnd_a = [0, 1, 2, 3, 4, 5, 6, 7, 8, 9, 10, 11, 12, 13, 14, 15]"

definition rnd_b :: "8 word list" where
  "rnd_b = [0, 1, 2, 3, 4, 5, 0xF6, 7, 0xC8, 9, 10, 11, 12, 13, 14, 15]"

definition rnd_c :: "8 word list" where
  "rnd_c = [0xFF, 1, 2, 3, 4, 5, 6, 7, 8, 9, 10, 11, 12, 13, 14, 15]"

definition full_env :: env where
  \<comment> \<open>every setting present, the bucket named as \<^verbatim>\<open>src/app.ts\<close> names it\<close>
  "full_env =
     [''MINIO_HOST'' \<mapsto> ''minio.local'', ''MINIO_USERNAME'' \<mapsto> ''admin'',
      ''MINIO_PASSWORD'' \<mapsto> ''secret'', ''MINIO_DEFAULT_BUCKET'' \<mapsto> ''example-bucket'']"

definition files_env :: env where
  "files_env =
     [''MINIO_HOST'' \<mapsto> ''minio.local'', ''MINIO_USERNAME'' \<mapsto> ''admin'',
      ''MINIO_PASSWORD'' \<mapsto> ''secret'', ''MINIO_DEFAULT_BUCKET'' \<mapsto> ''files'']"

definition files_world :: world where
  \<comment> \<open>a process that has just started, in front of a store that holds the bucket
      \<^verbatim>\<open>files\<close> only, with a policy of its own\<close>
  "files_world =
     \<lparr>store = [''files'' \<mapsto> \<lparr>policy = Some ''{}'', contents = [(''a.txt'', ''hello'')]\<rparr>],
      reachable = True, calls = [], console = [], minioClient = None\<rparr>"

definition slash_world :: world where
  \<comment> \<open>a serving process in front of a bucket that also holds a key with a \<^verbatim>\<open>/\<close>\<close>
  "slash_world =
     serving_world\<lparr>store := [''example-bucket'' \<mapsto>
       \<lparr>policy = Some ''{}'', contents = [(''dir/b.txt'', ''world''), (''a.txt'', ''hello'')]\<rparr>]\<rparr>"

section \<open>Properties\<close>

subsection \<open>Start-up of \<^verbatim>\<open>src/app.ts\<close>\<close>

lemma app_init_eq:
  "app_init env w =
     (case truthy (env ''MINIO_HOST'') of
        None \<Rightarrow> app_exit (app_not_set ''STORAGE_ENDPOINT'') (app_hint ''endpoint'' ''domain'') w
      | Some h \<Rightarrow>
     (case truthy (env ''MINIO_USERNAME'') of
        None \<Rightarrow> app_exit (app_not_set ''STORAGE_USER'') (app_hint ''access key'' ''connect'') w
      | Some a \<Rightarrow>
     (case truthy (env ''MINIO_PASSWORD'') of
        None \<Rightarrow>
          app_exit (app_not_set ''STORAGE_PASSWORD'') (app_hint ''secret key'' ''connect'') w
      | Some s \<Rightarrow>
          app_exit (app_not_set ''STORAGE_USE_SSL'') (app_hint ''useSSL value'' ''connect'') w)))"
  unfolding app_init_def by (simp add: truthy_def split: option.splits)

lemma app_exit_frame:
  "fst (app_exit l1 l2 w) = Exited 1 \<and> calls (snd (app_exit l1 l2 w)) = calls w \<and>
   store (snd (app_exit l1 l2 w)) = store w \<and>
   minioClient (snd (app_exit l1 l2 w)) = minioClient w"
  by (simp add: app_exit_def info_def)

lemma app_init_frame:
  "fst (app_init env w) = Exited 1 \<and> calls (snd (app_init env w)) = calls w \<and>
   store (snd (app_init env w)) = store w \<and>
   minioClient (snd (app_init env w)) = minioClient w"
  unfolding app_init_eq by (simp add: app_exit_frame split: option.splits)

lemma app_main_eq: "app_main env w = (ProcessExit 1, snd (app_init env w))"
proof -
  obtain r w' where rw: "app_init env w = (r, w')" by (cases "app_init env w")
  with app_init_frame [of env w] have "r = Exited 1" by simp
  with rw show ?thesis by (simp add: app_main_def)
qed

text \<open>
  Claim C2. In \<^verbatim>\<open>src/app.ts\<close>, whatever the environment holds, \<^verbatim>\<open>init\<close> ends in
  \<^verbatim>\<open>process.exit(1)\<close>: when the three settings are present the check of the TLS flag
  fires, because the flag is the constant \<^verbatim>\<open>undefined\<close>. So \<^verbatim>\<open>main\<close> never reaches
  \<^verbatim>\<open>app.listen\<close>, and no client is built and no request is sent to the store.
\<close>

theorem app_always_exits_before_listening:
  "fst (app_init env w) = Exited 1 \<and>
   fst (app_main env w) = ProcessExit 1 \<and>
   exit_status (fst (app_main env w)) = Some 1 \<and>
   calls (snd (app_main env w)) = calls w \<and>
   store (snd (app_main env w)) = store w \<and>
   minioClient (snd (app_main env w)) = minioClient w"
  by (simp add: app_main_eq app_init_frame exit_status_def)

subsection \<open>A missing setting\<close>

lemma part000_missing:
  assumes "missing env = Some f"
  shows "part000_try env w = (Inl (part000_report f), w)"
  using assms unfolding part000_try_def missing_def part000_report_def
  by (auto simp: throw_def Let_def split: option.splits if_splits)

text \<open>
  Claim C4. When the host, the access key or the secret key is unset or empty, start-up
  fails and reports the first such setting: \<^verbatim>\<open>src/app.ts\<close> prints two lines that name it
  and calls \<^verbatim>\<open>process.exit(1)\<close>; \<^verbatim>\<open>part_000\<close> throws an error whose message begins with
  the variable's name, logs it and rethrows, so that the promise of \<^verbatim>\<open>main()\<close> rejects
  unhandled and the process ends with status 1. In both variants the run leaves the
  client variable as it was and makes no client call: no client is constructed.
\<close>

theorem missing_setting_aborts_startup:
  assumes "truthy (env ''MINIO_HOST'') = None \<or> truthy (env ''MINIO_USERNAME'') = None \<or>
           truthy (env ''MINIO_PASSWORD'') = None"
  shows "case missing env of
           None \<Rightarrow> False
         | Some f \<Rightarrow>
             app_main env w =
               (ProcessExit 1, w\<lparr>console := console w @ map Info (app_report f)\<rparr>) \<and>
             part000_main env w =
               (UnhandledRejection (part000_report f),
                w\<lparr>console := console w @ [ErrorMsg zh_init_error (part000_report f)]\<rparr>) \<and>
             exit_status (fst (app_main env w)) = Some 1 \<and>
             exit_status (fst (part000_main env w)) = Some 1 \<and>
             calls (snd (app_main env w)) = calls w \<and>
             minioClient (snd (app_main env w)) = minioClient w \<and>
             calls (snd (part000_main env w)) = calls w \<and>
             minioClient (snd (part000_main env w)) = minioClient w"
proof -
  from assms have "missing env \<noteq> None"
    by (auto simp: missing_def)
  then obtain f where f: "missing env = Some f"
    by blast
  have a: "app_main env w =
             (ProcessExit 1, w\<lparr>console := console w @ map Info (app_report f)\<rparr>)"
    using f unfolding app_main_eq app_init_eq missing_def app_report_def
    by (auto simp: app_exit_def info_def split: option.splits if_splits)
  have p: "part000_main env w =
             (UnhandledRejection (part000_report f),
              w\<lparr>console := console w @ [ErrorMsg zh_init_error (part000_report f)]\<rparr>)"
    by (simp add: part000_main_def part000_init_def part000_missing [OF f])
  show ?thesis
    unfolding f by (simp add: a p exit_status_def)
qed

theorem missing_setting_aborts_startup_witness:
  "(case missing [''MINIO_HOST'' \<mapsto> ''minio.local'', ''MINIO_PASSWORD'' \<mapsto> ''secret''] of
      None \<Rightarrow> False
    | Some f \<Rightarrow>
        f = AccessKey \<and>
        fst (app_main [''MINIO_HOST'' \<mapsto> ''minio.local'', ''MINIO_PASSWORD'' \<mapsto> ''secret'']
               fresh_world) = ProcessExit 1 \<and>
        fst (part000_main [''MINIO_HOST'' \<mapsto> ''minio.local'', ''MINIO_PASSWORD'' \<mapsto> ''secret'']
               fresh_world) = UnhandledRejection (Error (''MINIO_USERNAME'' @ zh_not_set)) \<and>
        calls (snd (part000_main
                 [''MINIO_HOST'' \<mapsto> ''minio.local'', ''MINIO_PASSWORD'' \<mapsto> ''secret'']
                 fresh_world)) = [])"
proof -
  have h: "truthy ([''MINIO_HOST'' \<mapsto> ''minio.local'', ''MINIO_PASSWORD'' \<mapsto> ''secret'']
                     ''MINIO_HOST'') = None \<or>
           truthy ([''MINIO_HOST'' \<mapsto> ''minio.local'', ''MINIO_PASSWORD'' \<mapsto> ''secret'']
                     ''MINIO_USERNAME'') = None \<or>
           truthy ([''MINIO_HOST'' \<mapsto> ''minio.local'', ''MINIO_PASSWORD'' \<mapsto> ''secret'']
                     ''MINIO_PASSWORD'') = None"
    by (simp add: truthy_def)
  have m: "missing [''MINIO_HOST'' \<mapsto> ''minio.local'', ''MINIO_PASSWORD'' \<mapsto> ''secret'']
             = Some AccessKey"
    by (simp add: missing_def truthy_def)
  show ?thesis
    using missing_setting_aborts_startup [OF h, of fresh_world]
    unfolding m by (simp add: part000_report_def fresh_world_def)
qed


subsection \<open>The bucket at start-up\<close>

lemma glob_star: "glob ''*'' s"
  by (induction s) auto

lemma glob_star_skip: "glob ps s \<Longrightarrow> glob (CHR ''*'' # ps) s"
  by (cases s) auto

lemma glob_prefix: "glob (x @ ''*'') (x @ y)"
proof (induction x)
  case Nil
  show ?case using glob_star by simp
next
  case (Cons c x)
  then show ?case by (simp add: glob_star_skip)
qed

lemma glob_literal: "CHR ''*'' \<notin> set p \<Longrightarrow> glob p s = (s = p)"
  by (induction p s rule: glob.induct) auto

lemma policy_grants_read:
  "anonymous_may (part000_policyAllowAllRead b) ''s3:GetObject'' (''arn:aws:s3:::'' @ b @ ''/'' @ key)"
  "anonymous_may (app_policyAllowAllRead b) ''s3:GetObject'' (''arn:aws:s3:::'' @ b @ ''/'' @ key)"
  using glob_prefix [of "''arn:aws:s3:::'' @ b @ ''/''" key] glob_literal [of "''s3:GetObject''" "''s3:GetObject''"]
  by (simp_all add: anonymous_may_def statements_def statement_allows_def
      part000_policyAllowAllRead_def app_policyAllowAllRead_def)

lemma policy_grants_only_read:
  "anonymous_may (part000_policyAllowAllRead b) action resource \<Longrightarrow> action = ''s3:GetObject''"
  "anonymous_may (app_policyAllowAllRead b) action resource \<Longrightarrow> action = ''s3:GetObject''"
  using glob_literal [of "''s3:GetObject''" action]
  by (simp_all add: anonymous_may_def statements_def statement_allows_def
      part000_policyAllowAllRead_def app_policyAllowAllRead_def)


lemmas client_defs = await_def say_def throw_def construct_def listBuckets_def bucketExists_def
  makeBucket_def setBucketPolicy_def putObject_def getObject_def listObjects_def request_def
  named_request_def new_Client_def info_def

lemma valid_example_bucket: "isValidBucketName ''example-bucket''"
  by code_simp

lemma valid_app_bucketName: "isValidBucketName app_bucketName"
  by (simp add: app_bucketName_def valid_example_bucket)


lemma valid_files: "isValidBucketName ''files''"
  by code_simp

lemma name_char_plain: "name_char c \<Longrightarrow> escape_char c = [c]"
  by (auto simp: name_char_def is_lower_def is_digit_def escape_char_def Let_def)

lemma valid_name_chars:
  assumes "isValidBucketName b"
  shows "list_all name_char b"
proof -
  from assms obtain c cs l m where b: "b = c # cs" and cs: "rev cs = l # m"
    and c: "is_lower c \<or> is_digit c" and l: "is_lower l \<or> is_digit l" and m: "list_all name_char m"
    by (auto simp: isValidBucketName_def split: list.splits)
  from cs have "cs = rev m @ [l]"
    by (metis rev_rev_ident rev.simps(2))
  with b c l m show ?thesis
    by (auto simp: name_char_def list_all_iff)
qed

lemma valid_name_plain:
  assumes "isValidBucketName b"
  shows "concat (map escape_char b) = b"
proof -
  have "list_all name_char xs \<Longrightarrow> concat (map escape_char xs) = xs" for xs
    by (induction xs) (simp_all add: name_char_plain)
  with valid_name_chars [OF assms] show ?thesis by blast
qed

lemma quote_plain: "concat (map escape_char s) = s \<Longrightarrow> quote s = [CHR 0x22] @ s @ [CHR 0x22]"
  by (simp add: quote_def)

lemma quote_literals:
  "quote ''Version'' = [CHR 0x22] @ ''Version'' @ [CHR 0x22]"
  "quote ''2012-10-17'' = [CHR 0x22] @ ''2012-10-17'' @ [CHR 0x22]"
  "quote ''Id'' = [CHR 0x22] @ ''Id'' @ [CHR 0x22]"
  "quote ''allow-all-read'' = [CHR 0x22] @ ''allow-all-read'' @ [CHR 0x22]"
  "quote ''Statement'' = [CHR 0x22] @ ''Statement'' @ [CHR 0x22]"
  "quote ''Action'' = [CHR 0x22] @ ''Action'' @ [CHR 0x22]"
  "quote ''s3:GetObject'' = [CHR 0x22] @ ''s3:GetObject'' @ [CHR 0x22]"
  "quote ''Effect'' = [CHR 0x22] @ ''Effect'' @ [CHR 0x22]"
  "quote ''Allow'' = [CHR 0x22] @ ''Allow'' @ [CHR 0x22]"
  "quote ''Principal'' = [CHR 0x22] @ ''Principal'' @ [CHR 0x22]"
  "quote ''AWS'' = [CHR 0x22] @ ''AWS'' @ [CHR 0x22]"
  "quote ''*'' = [CHR 0x22] @ ''*'' @ [CHR 0x22]"
  "quote ''Resource'' = [CHR 0x22] @ ''Resource'' @ [CHR 0x22]"
  by (simp_all add: quote_def escape_char_def)

lemma quote_arn:
  assumes "isValidBucketName b"
  shows "quote (''arn:aws:s3:::'' @ b @ ''/*'') =
         [CHR 0x22] @ ''arn:aws:s3:::'' @ b @ ''/*'' @ [CHR 0x22]"
  using valid_name_plain [OF assms] by (simp add: quote_def escape_char_def)

lemma stringify_policies:
  assumes "isValidBucketName b"
  shows "stringify (part000_policyAllowAllRead b) = part000_policy_text b"
    "stringify (app_policyAllowAllRead b) = app_policy_text b"
  using quote_arn [OF assms]
  by (simp_all add: part000_policyAllowAllRead_def part000_policy_text_def
      app_policyAllowAllRead_def app_policy_text_def quote_literals)


lemma part000_try_absent:
  assumes "truthy (env ''MINIO_HOST'') = Some h" "truthy (env ''MINIO_USERNAME'') = Some a"
    "truthy (env ''MINIO_PASSWORD'') = Some s" "isValidBucketName (part000_bucketName env)"
    "reachable w" "store w (part000_bucketName env) = None"
  shows "fst (part000_try env w) = Inr ()"
    "calls (snd (part000_try env w)) = calls w @
       [NewClient \<lparr>endPoint = h, accessKey = a, secretKey = s, port = Some 9000, useSSL = False\<rparr>,
        ListBuckets, BucketExists (part000_bucketName env), MakeBucket (part000_bucketName env),
        SetBucketPolicy (part000_bucketName env)
          (stringify (part000_policyAllowAllRead (part000_bucketName env)))]"
    "store (snd (part000_try env w)) = (store w)(part000_bucketName env \<mapsto>
        \<lparr>policy = Some (stringify (part000_policyAllowAllRead (part000_bucketName env))),
           contents = []\<rparr>)"
    "minioClient (snd (part000_try env w)) =
       Some \<lparr>endPoint = h, accessKey = a, secretKey = s, port = Some 9000, useSSL = False\<rparr>"
  using assms unfolding part000_try_def
  by (simp_all add: client_defs Let_def)

lemma part000_try_present:
  assumes "truthy (env ''MINIO_HOST'') = Some h" "truthy (env ''MINIO_USERNAME'') = Some a"
    "truthy (env ''MINIO_PASSWORD'') = Some s" "isValidBucketName (part000_bucketName env)"
    "reachable w" "store w (part000_bucketName env) = Some bk"
  shows "fst (part000_try env w) = Inr ()"
    "calls (snd (part000_try env w)) = calls w @
       [NewClient \<lparr>endPoint = h, accessKey = a, secretKey = s, port = Some 9000, useSSL = False\<rparr>,
        ListBuckets, BucketExists (part000_bucketName env)]"
    "store (snd (part000_try env w)) = store w"
    "minioClient (snd (part000_try env w)) =
       Some \<lparr>endPoint = h, accessKey = a, secretKey = s, port = Some 9000, useSSL = False\<rparr>"
  using assms unfolding part000_try_def
  by (simp_all add: client_defs Let_def)

lemma part000_try_bad_name:
  assumes "truthy (env ''MINIO_HOST'') = Some h" "truthy (env ''MINIO_USERNAME'') = Some a"
    "truthy (env ''MINIO_PASSWORD'') = Some s" "\<not> isValidBucketName (part000_bucketName env)"
    "reachable w"
  shows "fst (part000_try env w) =
      Inl (InvalidBucketNameError (''Invalid bucket name: '' @ part000_bucketName env))"
    "calls (snd (part000_try env w)) = calls w @
       [NewClient \<lparr>endPoint = h, accessKey = a, secretKey = s, port = Some 9000, useSSL = False\<rparr>,
        ListBuckets, BucketExists (part000_bucketName env)]"
    "store (snd (part000_try env w)) = store w"
  using assms unfolding part000_try_def
  by (simp_all add: client_defs Let_def)

lemma part000_try_no_create:
  assumes "store w (part000_bucketName env) \<noteq> None"
  shows "filter creates (calls (snd (part000_try env w))) = filter creates (calls w)"
    "store (snd (part000_try env w)) = store w"
  using assms unfolding part000_try_def
  by (auto simp add: client_defs Let_def creates_def split: option.splits)

lemma part000_init_world:
  "calls (snd (part000_init env w)) = calls (snd (part000_try env w))"
  "store (snd (part000_init env w)) = store (snd (part000_try env w))"
  "minioClient (snd (part000_init env w)) = minioClient (snd (part000_try env w))"
  by (auto simp: part000_init_def split: prod.splits sum.splits)

lemma part000_init_returned:
  "fst (part000_try env w) = Inr () \<Longrightarrow> fst (part000_init env w) = Returned"
  by (auto simp: part000_init_def split: prod.splits sum.splits)

lemma app_ensure_bucket_no_create:
  assumes "store w app_bucketName \<noteq> None"
  shows "filter creates (calls (snd (app_ensure_bucket w))) = filter creates (calls w)"
    "store (snd (app_ensure_bucket w)) = store w"
  using assms unfolding app_ensure_bucket_def
  by (auto simp add: client_defs Let_def creates_def split: option.splits)

lemma app_ensure_bucket_absent:
  assumes "reachable w" "store w app_bucketName = None"
  shows "fst (app_ensure_bucket (new_Client opts w)) = Inr ()"
    "calls (snd (app_ensure_bucket (new_Client opts w))) = calls w @
       [NewClient opts, BucketExists app_bucketName, MakeBucket app_bucketName,
        SetBucketPolicy app_bucketName (app_policy_text app_bucketName)]"
    "store (snd (app_ensure_bucket (new_Client opts w))) = (store w)(app_bucketName \<mapsto>
        \<lparr>policy = Some (app_policy_text app_bucketName), contents = []\<rparr>)"
  using assms valid_app_bucketName unfolding app_ensure_bucket_def
  by (simp_all add: client_defs Let_def stringify_policies)

text \<open>
  What \<^verbatim>\<open>init\<close> of \<^verbatim>\<open>part_000\<close> does for a bucket that is not there: with the three
  settings present, a bucket name the client accepts and a store that answers, it returns
  after exactly these calls, the last of which assigns the one policy document; the
  document lets anonymous callers read every object under the bucket and nothing else.
\<close>

lemma part000_creates_absent_bucket:
  assumes "truthy (env ''MINIO_HOST'') = Some h" and "truthy (env ''MINIO_USERNAME'') = Some a"
    and "truthy (env ''MINIO_PASSWORD'') = Some s"
    and "isValidBucketName (part000_bucketName env)" and "reachable w"
    and "store w (part000_bucketName env) = None"
  shows "fst (part000_init env w) = Returned \<and>
    calls (snd (part000_init env w)) = calls w @
      [NewClient \<lparr>endPoint = h, accessKey = a, secretKey = s, port = Some 9000, useSSL = False\<rparr>,
       ListBuckets, BucketExists (part000_bucketName env), MakeBucket (part000_bucketName env),
       SetBucketPolicy (part000_bucketName env) (part000_policy_text (part000_bucketName env))] \<and>
    store (snd (part000_init env w)) = (store w)(part000_bucketName env \<mapsto>
      \<lparr>policy = Some (part000_policy_text (part000_bucketName env)), contents = []\<rparr>) \<and>
    anonymous_may (part000_policyAllowAllRead (part000_bucketName env)) ''s3:GetObject''
      (''arn:aws:s3:::'' @ part000_bucketName env @ ''/'' @ key) \<and>
    (anonymous_may (part000_policyAllowAllRead (part000_bucketName env)) action resource
       \<longrightarrow> action = ''s3:GetObject'')"
  using part000_try_absent [OF assms] policy_grants_read [of _ key]
    policy_grants_only_read [of _ action resource]
  by (simp add: part000_init_world part000_init_returned stringify_policies [OF assms(4)])

lemma truthy_full_env:
  "truthy (full_env ''MINIO_HOST'') = Some ''minio.local''"
  "truthy (full_env ''MINIO_USERNAME'') = Some ''admin''"
  "truthy (full_env ''MINIO_PASSWORD'') = Some ''secret''"
  "part000_bucketName full_env = ''example-bucket''"
  by (simp_all add: truthy_def full_env_def part000_bucketName_def template_def)

lemma truthy_files_env:
  "truthy (files_env ''MINIO_HOST'') = Some ''minio.local''"
  "truthy (files_env ''MINIO_USERNAME'') = Some ''admin''"
  "truthy (files_env ''MINIO_PASSWORD'') = Some ''secret''"
  "part000_bucketName files_env = ''files''"
  by (simp_all add: truthy_def files_env_def part000_bucketName_def template_def)

text \<open>
  Claim C5 at its failing input: \<^verbatim>\<open>src/app.ts\<close> started with every setting present in
  front of a store that answers and does not hold the bucket. Its \<^verbatim>\<open>init\<close> exits with
  status 1 at the check of the TLS flag: it makes no client call, and the bucket is still
  absent afterwards. \<^verbatim>\<open>part_000\<close>, started on the same input, creates the bucket and assigns
  it one policy document, whose text is written out in \<open>part000_policy_text\<close>; the
  document grants anonymous callers \<^verbatim>\<open>s3:GetObject\<close> on the objects of the bucket and
  neither \<^verbatim>\<open>s3:PutObject\<close> nor \<^verbatim>\<open>s3:DeleteObject\<close>.
\<close>

theorem app_init_leaves_absent_bucket_absent:
  "fst (app_init full_env fresh_world) = Exited 1 \<and>
   calls (snd (app_init full_env fresh_world)) = [] \<and>
   store (snd (app_init full_env fresh_world)) ''example-bucket'' = None \<and>
   fst (part000_init full_env fresh_world) = Returned \<and>
   calls (snd (part000_init full_env fresh_world)) =
     [NewClient \<lparr>endPoint = ''minio.local'', accessKey = ''admin'', secretKey = ''secret'',
        port = Some 9000, useSSL = False\<rparr>,
      ListBuckets, BucketExists ''example-bucket'', MakeBucket ''example-bucket'',
      SetBucketPolicy ''example-bucket'' (part000_policy_text ''example-bucket'')] \<and>
   store (snd (part000_init full_env fresh_world)) ''example-bucket'' =
     Some \<lparr>policy = Some (part000_policy_text ''example-bucket''), contents = []\<rparr> \<and>
   anonymous_may (part000_policyAllowAllRead ''example-bucket'') ''s3:GetObject''
     ''arn:aws:s3:::example-bucket/a.txt'' \<and>
   \<not> anonymous_may (part000_policyAllowAllRead ''example-bucket'') ''s3:PutObject''
     ''arn:aws:s3:::example-bucket/a.txt'' \<and>
   \<not> anonymous_may (part000_policyAllowAllRead ''example-bucket'') ''s3:DeleteObject''
     ''arn:aws:s3:::example-bucket/a.txt''"
proof -
  have h: "isValidBucketName (part000_bucketName full_env)" "reachable fresh_world"
    "store fresh_world (part000_bucketName full_env) = None"
    by (simp_all add: truthy_full_env valid_example_bucket fresh_world_def)
  have a: "fst (app_init full_env fresh_world) = Exited 1 \<and>
      calls (snd (app_init full_env fresh_world)) = [] \<and>
      store (snd (app_init full_env fresh_world)) ''example-bucket'' = None"
    using app_init_frame [of full_env fresh_world] by (simp add: fresh_world_def)
  have put: "\<not> anonymous_may (part000_policyAllowAllRead ''example-bucket'') ''s3:PutObject''
       ''arn:aws:s3:::example-bucket/a.txt''"
    using policy_grants_only_read(1) [of "''example-bucket''" "''s3:PutObject''"] by auto
  have del: "\<not> anonymous_may (part000_policyAllowAllRead ''example-bucket'') ''s3:DeleteObject''
       ''arn:aws:s3:::example-bucket/a.txt''"
    using policy_grants_only_read(1) [of "''example-bucket''" "''s3:DeleteObject''"] by auto
  show ?thesis
    using part000_creates_absent_bucket [OF truthy_full_env(1-3) h, where key = "''a.txt''"]
      a put del
    by (simp add: truthy_full_env fresh_world_def)
qed

text \<open>
  Claim C6. When the target bucket already exists, \<^verbatim>\<open>init\<close> issues no call that creates a
  bucket and no call that assigns a policy, whatever the environment and whether or not
  the store answers, and the store (so the bucket's policy) is what it was. Each variant
  is stated for its own bucket: \<^verbatim>\<open>part_000\<close> for the bucket its environment names,
  \<^verbatim>\<open>src/app.ts\<close> (its \<^verbatim>\<open>init\<close>, and its bucket block run by itself) for
  \<^verbatim>\<open>example-bucket\<close>.
\<close>

theorem existing_bucket_is_left_alone:
  "(store w (part000_bucketName env) \<noteq> None \<longrightarrow>
      filter creates (calls (snd (part000_init env w))) = filter creates (calls w) \<and>
      store (snd (part000_init env w)) = store w) \<and>
   (store w app_bucketName \<noteq> None \<longrightarrow>
      filter creates (calls (snd (app_init env w))) = filter creates (calls w) \<and>
      store (snd (app_init env w)) = store w \<and>
      filter creates (calls (snd (app_ensure_bucket w))) = filter creates (calls w) \<and>
      store (snd (app_ensure_bucket w)) = store w)"
  using part000_try_no_create [of w env] app_ensure_bucket_no_create [of w]
  by (simp add: part000_init_world app_init_frame)

theorem existing_bucket_is_left_alone_witness:
  "calls (snd (part000_init files_env files_world)) =
     [NewClient \<lparr>endPoint = ''minio.local'', accessKey = ''admin'', secretKey = ''secret'',
        port = Some 9000, useSSL = False\<rparr>,
      ListBuckets, BucketExists ''files''] \<and>
   filter creates (calls (snd (part000_init files_env files_world))) = [] \<and>
   store (snd (part000_init files_env files_world)) ''files'' =
     Some \<lparr>policy = Some ''{}'', contents = [(''a.txt'', ''hello'')]\<rparr> \<and>
   store (snd (part000_init files_env files_world)) ''example-bucket'' = None \<and>
   filter creates (calls (snd (app_init full_env stocked_world))) = [] \<and>
   store (snd (app_init full_env stocked_world)) ''example-bucket'' =
     Some \<lparr>policy = Some ''{}'', contents = [(''a.txt'', ''hello'')]\<rparr>"
proof -
  have h: "store files_world (part000_bucketName files_env) \<noteq> None"
    "store stocked_world app_bucketName \<noteq> None"
    by (simp_all add: truthy_files_env files_world_def stocked_world_def app_bucketName_def)
  have t: "isValidBucketName (part000_bucketName files_env)" "reachable files_world"
    "store files_world (part000_bucketName files_env) =
       Some \<lparr>policy = Some ''{}'', contents = [(''a.txt'', ''hello'')]\<rparr>"
    by (simp_all add: truthy_files_env valid_files files_world_def)
  have c: "calls files_world = []" "calls stocked_world = []"
    by (simp_all add: files_world_def stocked_world_def)
  from existing_bucket_is_left_alone [of files_world files_env] h(1)
  have p: "filter creates (calls (snd (part000_init files_env files_world))) = [] \<and>
      store (snd (part000_init files_env files_world)) = store files_world"
    by (simp add: c)
  from existing_bucket_is_left_alone [of stocked_world full_env] h(2)
  have q: "filter creates (calls (snd (app_init full_env stocked_world))) = [] \<and>
      store (snd (app_init full_env stocked_world)) = store stocked_world"
    by (simp add: c)
  show ?thesis
    using p q part000_try_present(2) [OF truthy_files_env(1-3) t]
    by (simp add: part000_init_world c truthy_files_env files_world_def stocked_world_def)
qed


subsection \<open>Upload and fetch\<close>

lemma upload_handler_ok:
  assumes "minioClient w \<noteq> None" "reachable w" "store w b = Some bk"
  shows "upload_handler b rnd req w =
    (Responded \<lparr>status = 200, headers = [],
       body = ''Your file is now available at https://minio-demo.zeabur.app/objects/'' @ randomUUID rnd @ '' !''\<rparr>,
     w\<lparr>calls := calls w @ [PutObject b (randomUUID rnd) req],
       store := (store w)(b \<mapsto> bk\<lparr>contents := AList.update (randomUUID rnd) req (contents bk)\<rparr>)\<rparr>)"
  using assms by (simp add: upload_handler_def client_defs Let_def)

lemma upload_handler_calls:
  assumes "minioClient w \<noteq> None"
  shows "calls (snd (upload_handler b rnd req w)) = calls w @ [PutObject b (randomUUID rnd) req]"
  using assms by (auto simp add: upload_handler_def client_defs Let_def split: option.splits)

lemma object_handler_eq:
  assumes "minioClient w \<noteq> None"
  shows "object_handler b k w =
    ((if \<not> reachable w then Rejected (S3Error ConnectionRefused)
      else case store w b of
             None \<Rightarrow> Rejected (S3Error NoSuchBucket)
           | Some bk \<Rightarrow>
               (case map_of (contents bk) k of
                  None \<Rightarrow> Rejected (S3Error NoSuchKey)
                | Some bytes \<Rightarrow> Responded \<lparr>status = 200, headers = [], body = bytes\<rparr>)),
     w\<lparr>calls := calls w @ [GetObject b k]\<rparr>)"
  using assms by (auto simp add: object_handler_def client_defs Let_def split: option.splits)

lemma object_handler_undefined_client:
  "minioClient w = None \<Longrightarrow>
     object_handler b k w = (Rejected (undefined_client ''getObject''), w)"
  by (simp add: object_handler_def client_defs)

text \<open>
  Claim C1. On a serving process whose store answers and holds the bucket, an upload is
  answered with status 200 and a text that carries the generated key, and a fetch of that
  key on the state the upload leaves is answered with status 200 and a body equal to the
  uploaded byte sequence: the same bytes, in the same number and order. The store of the
  model keeps what \<^verbatim>\<open>putObject\<close> receives, which is the claim's assumption.
\<close>

theorem upload_then_fetch_roundtrip:
  assumes "minioClient w \<noteq> None" and "reachable w" and "store w b \<noteq> None"
  shows "fst (upload_handler b rnd req w) =
      Responded \<lparr>status = 200, headers = [],
        body = ''Your file is now available at https://minio-demo.zeabur.app/objects/'' @
               randomUUID rnd @ '' !''\<rparr> \<and>
    fst (object_handler b (randomUUID rnd) (snd (upload_handler b rnd req w))) =
      Responded \<lparr>status = 200, headers = [], body = req\<rparr>"
proof -
  from assms(3) obtain bk where bk: "store w b = Some bk" by blast
  show ?thesis
    using assms(1,2)
    by (simp add: upload_handler_ok [OF assms(1,2) bk] object_handler_eq update_conv')
qed


lemmas uuid_defs = randomUUID_def uuid_v4_bits_def hex_def hex_byte_def hex_digit_def

lemma randomUUID_rnd_a: "randomUUID rnd_a = ''00010203-0405-4607-8809-0a0b0c0d0e0f''"
  by (simp add: uuid_defs rnd_a_def)

lemma randomUUID_rnd_b: "randomUUID rnd_b = ''00010203-0405-4607-8809-0a0b0c0d0e0f''"
  by (simp add: uuid_defs rnd_b_def)

lemma randomUUID_rnd_c: "randomUUID rnd_c = ''ff010203-0405-4607-8809-0a0b0c0d0e0f''"
  by (simp add: uuid_defs rnd_c_def)

theorem upload_then_fetch_roundtrip_witness:
  "randomUUID rnd_a = ''00010203-0405-4607-8809-0a0b0c0d0e0f'' \<and>
   fst (object_handler ''example-bucket'' ''00010203-0405-4607-8809-0a0b0c0d0e0f''
          (snd (upload_handler ''example-bucket'' rnd_a ''Hello World'' serving_world))) =
     Responded \<lparr>status = 200, headers = [], body = ''Hello World''\<rparr>"
proof -
  have h: "minioClient serving_world \<noteq> None" "reachable serving_world"
    "store serving_world ''example-bucket'' \<noteq> None"
    by (simp_all add: serving_world_def stocked_world_def)
  show ?thesis
    using upload_then_fetch_roundtrip [OF h, of rnd_a "''Hello World''"]
    by (simp add: randomUUID_rnd_a)
qed


text \<open>
  Claim C3 at its failing inputs: a fetch of a key the bucket does not hold, and a fetch
  while the store refuses the connection. In both the handler throws the error of
  \<^verbatim>\<open>getObject\<close> and writes no response, neither a 404 nor a server error: the call is
  awaited with no \<^verbatim>\<open>try\<close> around it. A key that is there is answered with its bytes, and
  the listing handler, on the same unreachable store, does answer with status 500.
\<close>

theorem failed_get_escapes_fetch_handler:
  "fst (object_handler ''example-bucket'' ''missing.txt'' serving_world) =
     Rejected (S3Error NoSuchKey) \<and>
   fst (object_handler ''example-bucket'' ''a.txt'' (serving_world\<lparr>reachable := False\<rparr>)) =
     Rejected (S3Error ConnectionRefused) \<and>
   fst (object_handler ''example-bucket'' ''a.txt'' serving_world) =
     Responded \<lparr>status = 200, headers = [], body = ''hello''\<rparr> \<and>
   fst (objects_handler ''example-bucket'' (serving_world\<lparr>reachable := False\<rparr>)) =
     Responded \<lparr>status = 500, headers = [], body = ''Something went wrong!''\<rparr>"
  using valid_example_bucket
  by (simp add: object_handler_eq objects_handler_def listObjects_def serving_world_def
      stocked_world_def)

text \<open>
  Claim C7 at its failing inputs: an upload while the store refuses the connection, and an
  upload into a bucket that does not exist. In both the handler throws the error of
  \<^verbatim>\<open>putObject\<close> and writes no response; the listing handler, on the same unreachable
  store, does answer with status 500.
\<close>

theorem failed_put_escapes_upload_handler:
  "fst (upload_handler ''example-bucket'' rnd_a ''Hello World'' (serving_world\<lparr>reachable := False\<rparr>)) =
     Rejected (S3Error ConnectionRefused) \<and>
   fst (upload_handler ''no-such-bucket'' rnd_a ''Hello World'' serving_world) =
     Rejected (S3Error NoSuchBucket) \<and>
   fst (objects_handler ''example-bucket'' (serving_world\<lparr>reachable := False\<rparr>)) =
     Responded \<lparr>status = 500, headers = [], body = ''Something went wrong!''\<rparr>"
  using valid_example_bucket
  by (simp add: upload_handler_def objects_handler_def client_defs serving_world_def stocked_world_def)

subsection \<open>Listing\<close>

lemma join_Nil: "join [] xs = concat xs"
  by (induction "[] :: string" xs rule: join.induct) simp_all

lemma listeners_data:
  "listeners acc (map Data items @ es) w = listeners (acc @ items) es w"
  by (induction items arbitrary: acc) simp_all

lemma list_item_object: "list_item (ObjectItem key) = link_entry key"
  by (simp add: list_item_def link_entry_def name_def template_def)

lemma list_page_has_entry:
  assumes "ObjectItem key \<in> set items"
  shows "sublist (link_entry key) (list_page items)"
proof -
  from assms obtain ys zs where "items = ys @ ObjectItem key # zs"
    by (auto simp: in_set_conv_decomp)
  then have "list_page items =
      (list_page_head @ concat (map list_item ys)) @ link_entry key @
      (concat (map list_item zs) @ list_page_tail)"
    by (simp add: list_page_def join_Nil list_item_object)
  then show ?thesis
    by (metis sublist_appendI)
qed

lemma concat_pages: "concat (pages n xs) = xs"
proof (induction n xs rule: pages.induct)
  case (1 n xs)
  show ?case
  proof (cases "xs = [] \<or> n = 0")
    case True
    then show ?thesis by (auto simp: pages.simps [of n xs])
  next
    case False
    with 1 have "concat (pages n (drop n xs)) = drop n xs" by simp
    with False show ?thesis by (simp add: pages.simps [of n xs])
  qed
qed

lemma set_listing: "set (listing keys) = item_of ` set keys"
proof -
  have "set (listing keys) = set (concat (pages 1000 (remdups_adj (map item_of (sort keys)))))"
    by (auto simp: listing_def)
  then show ?thesis
    by (simp add: concat_pages)
qed

lemma plain_key_listed:
  assumes "key \<in> set keys" "CHR ''/'' \<notin> set key"
  shows "ObjectItem key \<in> set (listing keys)"
proof -
  from assms(2) have "item_of key = ObjectItem key" by (simp add: item_of_def)
  with assms(1) show ?thesis unfolding set_listing by force
qed

lemma objects_handler_eq:
  assumes "minioClient w \<noteq> None" "isValidBucketName b"
  shows "objects_handler b w =
    listeners []
      (if \<not> reachable w then [StreamError (S3Error ConnectionRefused)]
       else case store w b of
              None \<Rightarrow> [StreamError (S3Error NoSuchBucket)]
            | Some bk \<Rightarrow> map Data (listing (map fst (contents bk))) @ [End])
      (w\<lparr>calls := calls w @ [ListObjects b]\<rparr>)"
  using assms by (auto simp add: objects_handler_def listObjects_def)

lemma listing_slash: "listing [''dir/b.txt'', ''a.txt''] = [ObjectItem ''a.txt'', PrefixItem ''dir/'']"
  by code_simp

lemma slash_page:
  "list_page [ObjectItem ''a.txt'', PrefixItem ''dir/''] =
     list_page_head @ link_entry ''a.txt'' @ link_entry ''undefined'' @ list_page_tail"
  by (simp add: list_page_def list_item_def link_entry_def name_def template_def)

text \<open>
  Claim C9, as stated, fails for a key that contains \<^verbatim>\<open>/\<close>. The bucket holds the keys
  \<^verbatim>\<open>dir/b.txt\<close> (the store returns its bytes) and \<^verbatim>\<open>a.txt\<close>; the listing is not
  recursive, so the first arrives as the prefix \<^verbatim>\<open>dir/\<close>, which has no name. The page, answered with status 200, has the entry
  of \<^verbatim>\<open>a.txt\<close> and an entry \<^verbatim>\<open>undefined\<close>, and the key \<^verbatim>\<open>dir/b.txt\<close> occurs nowhere in it.
\<close>

theorem key_with_slash_is_not_listed:
  "fst (getObject ''example-bucket'' ''dir/b.txt'' slash_world) = Inr ''world'' \<and>
   fst (objects_handler ''example-bucket'' slash_world) =
     Responded \<lparr>status = 200, headers = [(''Content-Type'', ''text/html'')],
       body = list_page_head @ link_entry ''a.txt'' @ link_entry ''undefined'' @ list_page_tail\<rparr> \<and>
   \<not> sublist ''dir/b.txt''
       (list_page_head @ link_entry ''a.txt'' @ link_entry ''undefined'' @ list_page_tail)"
proof -
  have 1: "fst (objects_handler ''example-bucket'' slash_world) =
     Responded \<lparr>status = 200, headers = [(''Content-Type'', ''text/html'')],
       body = list_page_head @ link_entry ''a.txt'' @ link_entry ''undefined'' @ list_page_tail\<rparr>"
    using valid_example_bucket
    by (simp add: objects_handler_def listObjects_def slash_world_def serving_world_def
        stocked_world_def listing_slash slash_page)
  have 2: "\<not> sublist ''dir/b.txt''
       (list_page_head @ link_entry ''a.txt'' @ link_entry ''undefined'' @ list_page_tail)"
    by code_simp
  have 3: "fst (getObject ''example-bucket'' ''dir/b.txt'' slash_world) = Inr ''world''"
    by (simp add: client_defs slash_world_def serving_world_def stocked_world_def)
  from 1 2 3 show ?thesis by simp
qed


text \<open>
  Claim C9, amended. The listing handler collects every item the stream carries before
  its \<^verbatim>\<open>end\<close> and answers with status 200 and a page in which every collected object
  appears as a list entry, its name linked to \<^verbatim>\<open>/objects/<name>\<close>; a stream that errors
  after any number of items is answered with status 500 instead. On the store of the
  model, the listing of an existing bucket therefore shows, with its link, every key of
  the bucket that contains no \<^verbatim>\<open>/\<close> (every key this program generates is such a key), and
  a listing that the store cannot serve is answered with status 500.
\<close>

theorem listing_renders_every_plain_key:
  assumes "minioClient w \<noteq> None" and "isValidBucketName b"
  shows "listeners [] (map Data items @ End # rest) w' =
      (Responded \<lparr>status = 200, headers = [(''Content-Type'', ''text/html'')],
         body = list_page items\<rparr>, w') \<and>
    (\<forall>key. ObjectItem key \<in> set items \<longrightarrow>
       sublist (''<li><a href='' @ [CHR 0x22] @ ''/objects/'' @ key @ [CHR 0x22] @ ''>'' @ key @
             ''</a></li>'')
         (list_page items)) \<and>
    fst (listeners [] (map Data items @ StreamError err # rest) w') =
      Responded \<lparr>status = 500, headers = [], body = ''Something went wrong!''\<rparr> \<and>
    (\<forall>bk. reachable w \<and> store w b = Some bk \<longrightarrow>
       fst (objects_handler b w) =
         Responded \<lparr>status = 200, headers = [(''Content-Type'', ''text/html'')],
           body = list_page (listing (map fst (contents bk)))\<rparr> \<and>
       (\<forall>key \<in> fst ` set (contents bk). CHR ''/'' \<notin> set key \<longrightarrow>
          sublist (''<li><a href='' @ [CHR 0x22] @ ''/objects/'' @ key @ [CHR 0x22] @ ''>'' @ key @
             ''</a></li>'')
            (list_page (listing (map fst (contents bk)))))) \<and>
    (\<not> reachable w \<or> store w b = None \<longrightarrow>
       fst (objects_handler b w) =
         Responded \<lparr>status = 500, headers = [], body = ''Something went wrong!''\<rparr>)"
proof -
  have a: "listeners [] (map Data items @ End # rest) w' =
      (Responded \<lparr>status = 200, headers = [(''Content-Type'', ''text/html'')],
         body = list_page items\<rparr>, w')"
    by (simp add: listeners_data)
  have b: "sublist (''<li><a href='' @ [CHR 0x22] @ ''/objects/'' @ key @ [CHR 0x22] @ ''>'' @ key @
             ''</a></li>'')
         (list_page items)" if "ObjectItem key \<in> set items" for key
    using list_page_has_entry [OF that] by (simp add: link_entry_def)
  have c: "fst (listeners [] (map Data items @ StreamError err # rest) w') =
      Responded \<lparr>status = 500, headers = [], body = ''Something went wrong!''\<rparr>"
    by (simp add: listeners_data)
  have d: "fst (objects_handler b w) =
         Responded \<lparr>status = 200, headers = [(''Content-Type'', ''text/html'')],
           body = list_page (listing (map fst (contents bk)))\<rparr> \<and>
       (\<forall>key \<in> fst ` set (contents bk). CHR ''/'' \<notin> set key \<longrightarrow>
          sublist (''<li><a href='' @ [CHR 0x22] @ ''/objects/'' @ key @ [CHR 0x22] @ ''>'' @ key @
             ''</a></li>'')
            (list_page (listing (map fst (contents bk)))))"
    if "reachable w \<and> store w b = Some bk" for bk
  proof -
    have "listeners [] (map Data (listing (map fst (contents bk))) @ [End])
            (w\<lparr>calls := calls w @ [ListObjects b]\<rparr>) =
          (Responded \<lparr>status = 200, headers = [(''Content-Type'', ''text/html'')],
             body = list_page (listing (map fst (contents bk)))\<rparr>,
           w\<lparr>calls := calls w @ [ListObjects b]\<rparr>)"
      by (simp only: listeners_data) simp
    then have 1: "fst (objects_handler b w) =
         Responded \<lparr>status = 200, headers = [(''Content-Type'', ''text/html'')],
           body = list_page (listing (map fst (contents bk)))\<rparr>"
      using that by (simp add: objects_handler_eq [OF assms])
    have 2: "sublist (''<li><a href='' @ [CHR 0x22] @ ''/objects/'' @ key @ [CHR 0x22] @ ''>'' @ key @
             ''</a></li>'')
            (list_page (listing (map fst (contents bk))))"
      if "key \<in> fst ` set (contents bk)" "CHR ''/'' \<notin> set key" for key
    proof -
      from that have "ObjectItem key \<in> set (listing (map fst (contents bk)))"
        by (intro plain_key_listed) auto
      from list_page_has_entry [OF this] show ?thesis
        by (simp add: link_entry_def)
    qed
    from 1 2 show ?thesis by blast
  qed
  have e: "fst (objects_handler b w) =
         Responded \<lparr>status = 500, headers = [], body = ''Something went wrong!''\<rparr>"
    if "\<not> reachable w \<or> store w b = None"
    using that by (auto simp add: objects_handler_eq [OF assms])
  from a b c d e show ?thesis by blast
qed

lemma listing_one: "listing [''a.txt''] = [ObjectItem ''a.txt'']"
  by code_simp

theorem listing_renders_every_plain_key_witness:
  "fst (objects_handler ''example-bucket'' serving_world) =
     Responded \<lparr>status = 200, headers = [(''Content-Type'', ''text/html'')],
       body = list_page [ObjectItem ''a.txt'']\<rparr> \<and>
   sublist (''<li><a href='' @ [CHR 0x22] @ ''/objects/a.txt'' @ [CHR 0x22] @ ''>a.txt</a></li>'')
     (list_page [ObjectItem ''a.txt'']) \<and>
   fst (listeners [] [Data (ObjectItem ''a.txt''), StreamError (S3Error ConnectionRefused)]
          serving_world) =
     Responded \<lparr>status = 500, headers = [], body = ''Something went wrong!''\<rparr> \<and>
   fst (objects_handler ''example-bucket'' (serving_world\<lparr>reachable := False\<rparr>)) =
     Responded \<lparr>status = 500, headers = [], body = ''Something went wrong!''\<rparr>"
proof -
  have h: "minioClient serving_world \<noteq> None" "isValidBucketName ''example-bucket''"
    by (simp_all add: serving_world_def valid_example_bucket)
  have h': "minioClient (serving_world\<lparr>reachable := False\<rparr>) \<noteq> None"
    by (simp add: serving_world_def)
  have p: "reachable serving_world \<and>
      store serving_world ''example-bucket'' =
        Some \<lparr>policy = Some ''{}'', contents = [(''a.txt'', ''hello'')]\<rparr>"
    by (simp add: serving_world_def stocked_world_def)
  from listing_renders_every_plain_key [OF h, where items = "[ObjectItem ''a.txt'']"
      and err = "S3Error ConnectionRefused" and rest = "[]" and w' = serving_world] p
  have 1: "fst (objects_handler ''example-bucket'' serving_world) =
     Responded \<lparr>status = 200, headers = [(''Content-Type'', ''text/html'')],
       body = list_page [ObjectItem ''a.txt'']\<rparr> \<and>
   sublist (''<li><a href='' @ [CHR 0x22] @ ''/objects/a.txt'' @ [CHR 0x22] @ ''>a.txt</a></li>'')
     (list_page [ObjectItem ''a.txt'']) \<and>
   fst (listeners [] [Data (ObjectItem ''a.txt''), StreamError (S3Error ConnectionRefused)]
          serving_world) =
     Responded \<lparr>status = 500, headers = [], body = ''Something went wrong!''\<rparr>"
    by (auto simp: listing_one)
  from listing_renders_every_plain_key [OF h' h(2)]
  have 2: "fst (objects_handler ''example-bucket'' (serving_world\<lparr>reachable := False\<rparr>)) =
     Responded \<lparr>status = 500, headers = [], body = ''Something went wrong!''\<rparr>"
    by simp
  from 1 2 show ?thesis by blast
qed

lemma part000_bucketName_unset:
  "env ''MINIO_DEFAULT_BUCKET'' = None \<Longrightarrow> part000_bucketName env = ''undefined''"
  by (simp add: part000_bucketName_def template_def)






subsection \<open>The generated key\<close>

lemma hex_digit_inj:
  assumes "m < 16" "n < 16" "hex_digit m = hex_digit n"
  shows "m = n"
proof -
  have d: "distinct ''0123456789abcdef''" by simp
  have l: "length ''0123456789abcdef'' = 16" by simp
  from assms have "''0123456789abcdef'' ! m = ''0123456789abcdef'' ! n"
    by (simp add: hex_digit_def)
  with d l assms(1,2) show ?thesis
    by (metis nth_eq_iff_index_eq)
qed

lemma nibbles_lt: "unat (drop_bit 4 (b :: 8 word)) < 16" "unat (b AND 0x0f) < 16"
proof -
  have "unat b < 256"
    using unsigned_less [of b, where 'a = nat] by simp
  then show "unat (drop_bit 4 b) < 16"
    by (simp add: drop_bit_eq_div unat_div)
  have "b AND 0x0f \<le> 0x0f" by (rule word_and_le1)
  then show "unat (b AND 0x0f) < 16"
    by (simp add: word_le_nat_alt)
qed

lemma hex_byte_inj:
  assumes "hex_byte a = hex_byte b"
  shows "a = b"
proof -
  from assms have "unat (drop_bit 4 a) = unat (drop_bit 4 b)" "unat (a AND 0x0f) = unat (b AND 0x0f)"
    by (auto simp: hex_byte_def intro: hex_digit_inj nibbles_lt)
  then have hi: "drop_bit 4 a = drop_bit 4 b" and lo: "take_bit 4 a = take_bit 4 b"
    by (simp_all add: take_bit_eq_mask mask_eq_exp_minus_1 word_unat_eq_iff)
  have "a = push_bit 4 (drop_bit 4 a) + take_bit 4 a" by (simp add: bits_ident)
  also have "\<dots> = push_bit 4 (drop_bit 4 b) + take_bit 4 b" by (simp add: hi lo)
  also have "\<dots> = b" by (simp add: bits_ident)
  finally show ?thesis .
qed

lemma length_hex: "length (hex bs) = 2 * length bs"
  by (induction bs) (simp_all add: hex_def hex_byte_def)

lemma hex_inj:
  assumes "length as = length bs" "hex as = hex bs"
  shows "as = bs"
  using assms
proof (induction as bs rule: list_induct2)
  case Nil
  then show ?case by simp
next
  case (Cons a as b bs)
  from Cons.prems have "hex_byte a @ hex as = hex_byte b @ hex bs"
    by (simp add: hex_def)
  moreover have "length (hex_byte a) = length (hex_byte b)"
    by (simp add: hex_byte_def)
  ultimately have "hex_byte a = hex_byte b" "hex as = hex bs"
    by simp_all
  with Cons.IH show ?case
    by (simp add: hex_byte_inj)
qed

lemma length_uuid_v4_bits: "length (uuid_v4_bits rnd) = length rnd"
  by (simp add: uuid_v4_bits_def)

lemma randomUUID_inj:
  assumes "length r1 = 16" "length r2 = 16"
  shows "randomUUID r1 = randomUUID r2 \<longleftrightarrow> uuid_v4_bits r1 = uuid_v4_bits r2"
proof
  assume "uuid_v4_bits r1 = uuid_v4_bits r2"
  then show "randomUUID r1 = randomUUID r2" by (simp add: randomUUID_def)
next
  define a where "a = uuid_v4_bits r1"
  define b where "b = uuid_v4_bits r2"
  have la: "length a = 16" and lb: "length b = 16"
    using assms by (simp_all add: a_def b_def length_uuid_v4_bits)
  assume "randomUUID r1 = randomUUID r2"
  then have "hex (take 4 a) @ ''-'' @ hex (take 2 (drop 4 a)) @ ''-'' @ hex (take 2 (drop 6 a)) @ ''-'' @
      hex (take 2 (drop 8 a)) @ ''-'' @ hex (drop 10 a) =
    hex (take 4 b) @ ''-'' @ hex (take 2 (drop 4 b)) @ ''-'' @ hex (take 2 (drop 6 b)) @ ''-'' @
      hex (take 2 (drop 8 b)) @ ''-'' @ hex (drop 10 b)"
    by (simp add: randomUUID_def a_def b_def Let_def)
  then have "hex (take 4 a) = hex (take 4 b) \<and> hex (take 2 (drop 4 a)) = hex (take 2 (drop 4 b)) \<and>
     hex (take 2 (drop 6 a)) = hex (take 2 (drop 6 b)) \<and> hex (take 2 (drop 8 a)) = hex (take 2 (drop 8 b)) \<and>
     hex (drop 10 a) = hex (drop 10 b)"
    using la lb by (simp add: length_hex)
  then have "take 4 a = take 4 b" "take 2 (drop 4 a) = take 2 (drop 4 b)"
    "take 2 (drop 6 a) = take 2 (drop 6 b)" "take 2 (drop 8 a) = take 2 (drop 8 b)"
    "drop 10 a = drop 10 b"
    using la lb by (auto intro!: hex_inj)
  then have "take 4 a @ take 2 (drop 4 a) @ take 2 (drop 6 a) @ take 2 (drop 8 a) @ drop 10 a =
     take 4 b @ take 2 (drop 4 b) @ take 2 (drop 6 b) @ take 2 (drop 8 b) @ drop 10 b"
    by simp
  moreover have "take 4 x @ take 2 (drop 4 x) @ take 2 (drop 6 x) @ take 2 (drop 8 x) @ drop 10 x = x"
    for x :: "8 word list"
  proof -
    have "take 2 (drop 8 x) @ drop 10 x = drop 8 x"
      using append_take_drop_id [of 2 "drop 8 x"] by simp
    moreover have "take 2 (drop 6 x) @ drop 8 x = drop 6 x"
      using append_take_drop_id [of 2 "drop 6 x"] by simp
    moreover have "take 2 (drop 4 x) @ drop 6 x = drop 4 x"
      using append_take_drop_id [of 2 "drop 4 x"] by simp
    ultimately show ?thesis by simp
  qed
  ultimately show "uuid_v4_bits r1 = uuid_v4_bits r2"
    by (simp add: a_def b_def)
qed

lemma v4_fixed_bits:
  assumes "length rnd = 16"
  shows "uuid_v4_bits rnd ! 6 AND 0xF0 = 0x40" "uuid_v4_bits rnd ! 8 AND 0xC0 = 0x80"
    "uuid_v4_bits rnd ! 6 AND 0x0F = rnd ! 6 AND 0x0F" "uuid_v4_bits rnd ! 8 AND 0x3F = rnd ! 8 AND 0x3F"
  using assms
  by (simp_all add: uuid_v4_bits_def bit.conj_disj_distrib2 and.assoc)

lemma v4_other_bytes:
  assumes "length rnd = 16" "i < 16" "i \<noteq> 6" "i \<noteq> 8"
  shows "uuid_v4_bits rnd ! i = rnd ! i"
  using assms by (simp add: uuid_v4_bits_def)


lemma two_uploads:
  assumes "minioClient w \<noteq> None" "reachable w" "store w b = Some bk"
    "randomUUID rnd1 \<noteq> randomUUID rnd2"
  shows "fst (object_handler b (randomUUID rnd1)
            (snd (upload_handler b rnd2 req2 (snd (upload_handler b rnd1 req1 w))))) =
           Responded \<lparr>status = 200, headers = [], body = req1\<rparr>"
    "fst (object_handler b (randomUUID rnd2)
            (snd (upload_handler b rnd2 req2 (snd (upload_handler b rnd1 req1 w))))) =
           Responded \<lparr>status = 200, headers = [], body = req2\<rparr>"
proof -
  define w1 where "w1 = snd (upload_handler b rnd1 req1 w)"
  have w1: "minioClient w1 \<noteq> None" "reachable w1"
    "store w1 b = Some (bk\<lparr>contents := AList.update (randomUUID rnd1) req1 (contents bk)\<rparr>)"
    using assms(1,2) by (simp_all add: w1_def upload_handler_ok [OF assms(1-3)])
  define w2 where "w2 = snd (upload_handler b rnd2 req2 w1)"
  have w2: "minioClient w2 \<noteq> None" "reachable w2"
    "store w2 b = Some (bk\<lparr>contents := AList.update (randomUUID rnd2) req2
       (AList.update (randomUUID rnd1) req1 (contents bk))\<rparr>)"
    using w1(1,2) by (simp_all add: w2_def upload_handler_ok [OF w1])
  show "fst (object_handler b (randomUUID rnd1)
            (snd (upload_handler b rnd2 req2 (snd (upload_handler b rnd1 req1 w))))) =
           Responded \<lparr>status = 200, headers = [], body = req1\<rparr>"
    using w2 assms(4) unfolding w1_def [symmetric] w2_def [symmetric]
    by (simp add: object_handler_eq update_conv')
  show "fst (object_handler b (randomUUID rnd2)
            (snd (upload_handler b rnd2 req2 (snd (upload_handler b rnd1 req1 w))))) =
           Responded \<lparr>status = 200, headers = [], body = req2\<rparr>"
    using w2 unfolding w1_def [symmetric] w2_def [symmetric]
    by (simp add: object_handler_eq update_conv')
qed

text \<open>
  Claim C8, as stated, fails in its count of random bits: two different draws of 128
  random bits give the same key, because \<^verbatim>\<open>randomUUID\<close> overwrites six of the bits with
  the version and the variant of the UUID.
\<close>

theorem distinct_draws_can_give_one_key:
  "length rnd_a = 16 \<and> length rnd_b = 16 \<and> rnd_a \<noteq> rnd_b \<and> randomUUID rnd_a = randomUUID rnd_b"
  by (simp add: randomUUID_rnd_a randomUUID_rnd_b) (simp add: rnd_a_def rnd_b_def)

text \<open>
  Claim C8, amended. The key of an upload is \<^verbatim>\<open>randomUUID\<close> of the random draw and of
  nothing else: the request body has no part in it. It is a version 4 UUID: of the 128
  drawn bits, the high half of byte 6 and the two top bits of byte 8 are replaced by fixed
  values and the other 122 are kept, and two keys are equal exactly when the draws agree
  in those 122 bits. When the keys of two uploads differ, each upload is fetched back
  under its own key with its own bytes.
\<close>

theorem upload_key_is_a_version_4_uuid:
  assumes "minioClient w \<noteq> None" and "reachable w" and "store w b \<noteq> None"
    and "length rnd1 = 16" and "length rnd2 = 16"
  shows "calls (snd (upload_handler b rnd1 req1 w)) = calls w @ [PutObject b (randomUUID rnd1) req1] \<and>
    uuid_v4_bits rnd1 ! 6 AND 0xF0 = 0x40 \<and> uuid_v4_bits rnd1 ! 8 AND 0xC0 = 0x80 \<and>
    uuid_v4_bits rnd1 ! 6 AND 0x0F = rnd1 ! 6 AND 0x0F \<and>
    uuid_v4_bits rnd1 ! 8 AND 0x3F = rnd1 ! 8 AND 0x3F \<and>
    (\<forall>i < 16. i \<noteq> 6 \<and> i \<noteq> 8 \<longrightarrow> uuid_v4_bits rnd1 ! i = rnd1 ! i) \<and>
    (randomUUID rnd1 = randomUUID rnd2) = (uuid_v4_bits rnd1 = uuid_v4_bits rnd2) \<and>
    (randomUUID rnd1 \<noteq> randomUUID rnd2 \<longrightarrow>
       fst (object_handler b (randomUUID rnd1)
              (snd (upload_handler b rnd2 req2 (snd (upload_handler b rnd1 req1 w))))) =
         Responded \<lparr>status = 200, headers = [], body = req1\<rparr> \<and>
       fst (object_handler b (randomUUID rnd2)
              (snd (upload_handler b rnd2 req2 (snd (upload_handler b rnd1 req1 w))))) =
         Responded \<lparr>status = 200, headers = [], body = req2\<rparr>)"
proof -
  from assms(3) obtain bk where bk: "store w b = Some bk" by blast
  show ?thesis
    using two_uploads [OF assms(1,2) bk, of rnd1 rnd2 req2 req1]
      v4_fixed_bits [OF assms(4)] v4_other_bytes [OF assms(4)]
      randomUUID_inj [OF assms(4,5)]
    by (simp add: upload_handler_calls [OF assms(1)])
qed

theorem upload_key_is_a_version_4_uuid_witness:
  "randomUUID rnd_a = ''00010203-0405-4607-8809-0a0b0c0d0e0f'' \<and>
   randomUUID rnd_c = ''ff010203-0405-4607-8809-0a0b0c0d0e0f'' \<and>
   fst (object_handler ''example-bucket'' ''00010203-0405-4607-8809-0a0b0c0d0e0f''
          (snd (upload_handler ''example-bucket'' rnd_c ''second''
             (snd (upload_handler ''example-bucket'' rnd_a ''first'' serving_world))))) =
     Responded \<lparr>status = 200, headers = [], body = ''first''\<rparr> \<and>
   fst (object_handler ''example-bucket'' ''ff010203-0405-4607-8809-0a0b0c0d0e0f''
          (snd (upload_handler ''example-bucket'' rnd_c ''second''
             (snd (upload_handler ''example-bucket'' rnd_a ''first'' serving_world))))) =
     Responded \<lparr>status = 200, headers = [], body = ''second''\<rparr>"
proof -
  have h: "minioClient serving_world \<noteq> None" "reachable serving_world"
    "store serving_world ''example-bucket'' \<noteq> None" "length rnd_a = 16" "length rnd_c = 16"
    by (simp_all add: serving_world_def stocked_world_def rnd_a_def rnd_c_def)
  from upload_key_is_a_version_4_uuid [OF h, where ?req1.0 = "''first''" and ?req2.0 = "''second''"]
  show ?thesis
    by (simp add: randomUUID_rnd_a randomUUID_rnd_c)
qed


end
